theory Spec2Isabelle
  imports Main
begin

section \<open>The process entry point: cmd/proxy/main.go and its unnamed variant\<close>

text \<open>
  Both entry points are a single \<open>main\<close> function that loads the configuration, builds the
  providers, the model router, the legacy Anthropic service, the SQLite storage and the
  handler, registers the routes on a gorilla/mux router, and serves until a signal arrives.
  The packages \<open>config\<close>, \<open>provider\<close>, \<open>service\<close>, \<open>handler\<close> and \<open>middleware\<close> are called
  but not defined in these files: a call that cannot fail is recorded as a constructor
  applied to its arguments, a call that can fail takes its result from the environment.
  Log texts are kept without their leading pictographs.
\<close>

subsection \<open>Log output\<close>

text \<open>
  The logger is built by \<open>log.New(os.Stdout, "proxy: ", log.LstdFlags|log.Lshortfile)\<close> (line
  26 of both files). With \<open>Lshortfile\<close> every line it writes carries the file name and the line
  number of the logging call, so a log entry is a call together with the source line it
  stands on. The date and time that \<open>LstdFlags\<close> adds are wall-clock values and are left out.
\<close>

datatype log_flag = LstdFlags | Lshortfile

datatype logger = Logger string "log_flag list"

datatype log_call =
    Println string
  | Printf string "string list"
  | Fatalf string "string list"  \<comment> \<open>logs, then \<open>os.Exit(1)\<close>\<close>

type_synonym log_entry = "nat \<times> log_call"

subsection \<open>Configuration as \<open>main\<close> reads it\<close>

record server_config =
  Port :: string
  ReadTimeout :: int
  WriteTimeout :: int
  IdleTimeout :: int

record ('pa, 'po, 'ac, 'sc) config =
  cfg_Providers_Anthropic :: 'pa
  cfg_Providers_OpenAI :: 'po
  cfg_Anthropic :: 'ac
  cfg_Storage :: 'sc
  cfg_Server :: server_config

subsection \<open>Components built by \<open>main\<close>\<close>

datatype ('pa, 'po) provider =
    NewAnthropicProvider 'pa
  | NewOpenAIProvider 'po

record ('pa, 'po, 'ac, 'sc) model_router =
  mr_config :: "('pa, 'po, 'ac, 'sc) config"
  mr_providers :: "string \<rightharpoonup> ('pa, 'po) provider"
  mr_logger :: logger

definition NewModelRouter ::
  "('pa, 'po, 'ac, 'sc) config \<Rightarrow> (string \<rightharpoonup> ('pa, 'po) provider) \<Rightarrow> logger
     \<Rightarrow> ('pa, 'po, 'ac, 'sc) model_router" where
  "NewModelRouter cfg providers lg =
     \<lparr>mr_config = cfg, mr_providers = providers, mr_logger = lg\<rparr>"

datatype 'ac anthropic_service = NewAnthropicService 'ac

record ('pa, 'po, 'ac, 'sc, 'st) handler =
  h_anthropicService :: "'ac anthropic_service"
  h_storageService :: 'st
  h_logger :: logger
  h_modelRouter :: "('pa, 'po, 'ac, 'sc) model_router"

definition handler_New ::
  "'ac anthropic_service \<Rightarrow> 'st \<Rightarrow> logger \<Rightarrow> ('pa, 'po, 'ac, 'sc) model_router
     \<Rightarrow> ('pa, 'po, 'ac, 'sc, 'st) handler" where
  "handler_New anthropicService storageService lg modelRouter =
     \<lparr>h_anthropicService = anthropicService, h_storageService = storageService,
      h_logger = lg, h_modelRouter = modelRouter\<rparr>"

subsection \<open>Routes, CORS and the embedded file system\<close>

datatype handler_func =
    ChatCompletions | Messages | Models | Health
  | GetRequests | DeleteRequests
  | GetConversations | GetConversationByID | GetConversationsByProject

datatype route =
    HandleFunc string handler_func "string list"
      \<comment> \<open>\<open>r.HandleFunc(path, h.f).Methods(ms...)\<close>\<close>
  | PathPrefix_fileServer string
      \<comment> \<open>\<open>r.PathPrefix(prefix).Handler(fileServer)\<close>\<close>

record cors =
  AllowedOrigins :: "string list"
  AllowedMethods :: "string list"
  AllowedHeaders :: "string list"

text \<open>
  \<open>distFS\<close> is an \<open>fs.FS\<close> interface value: the model keeps the two operations \<open>main\<close> uses,
  whether \<open>Open\<close> returns no error and what \<open>fs.ReadFile\<close> returns.
\<close>

record dist_fs =
  fs_Open :: "string \<Rightarrow> bool"
  fs_ReadFile :: "string \<Rightarrow> string option"

datatype response =
    NotFound  \<comment> \<open>\<open>h.NotFound(w, req)\<close>\<close>
  | LocalRedirect string  \<comment> \<open>the file server answers 301 with this relative location\<close>
  | ServeFile string  \<comment> \<open>the file server's \<open>serveFile\<close> for the request path\<close>
  | Write "(string \<times> string) list" string  \<comment> \<open>headers set, then body written\<close>

definition HasPrefix :: "string \<Rightarrow> string \<Rightarrow> bool" where
  "HasPrefix s p = (take (length p) s = p)"

definition TrimPrefix :: "string \<Rightarrow> string \<Rightarrow> string" where
  "TrimPrefix s p = (if HasPrefix s p then drop (length p) s else s)"

definition HasSuffix :: "string \<Rightarrow> string \<Rightarrow> bool" where
  "HasSuffix s x = (length x \<le> length s \<and> drop (length s - length x) s = x)"

text \<open>
  \<open>fileServer\<close> is \<open>http.FileServer(http.FS(distFS))\<close> of the Go standard library, which is
  not part of the repository. Its \<open>ServeHTTP\<close> first redirects every path that ends in
  \<open>/index.html\<close> to \<open>./\<close>; what it does otherwise (the content of the named file, a
  directory listing, or a redirect to the canonical path of a file or directory) is kept
  opaque as \<open>ServeFile\<close>.
\<close>

definition fileServer_ServeHTTP :: "string \<Rightarrow> response" where
  "fileServer_ServeHTTP path =
     (if HasSuffix path ''/index.html'' then LocalRedirect ''./'' else ServeFile path)"

text \<open>The closure assigned to \<open>r.NotFoundHandler\<close> (lines 85 to 106 of both files).\<close>

definition NotFoundHandler :: "dist_fs \<Rightarrow> string \<Rightarrow> response" where
  "NotFoundHandler distFS path =
     (if HasPrefix path ''/api/'' \<or> HasPrefix path ''/v1/'' then NotFound
      else if fs_Open distFS (TrimPrefix path ''/'') then fileServer_ServeHTTP path
      else (case fs_ReadFile distFS ''index.html'' of
              None \<Rightarrow> NotFound
            | Some indexHTML \<Rightarrow> Write [(''Content-Type'', ''text/html'')] indexHTML))"

record ('pa, 'po, 'ac, 'sc, 'st) mux_router =
  mux_middleware :: "string list"
  mux_handler :: "('pa, 'po, 'ac, 'sc, 'st) handler"
  mux_routes :: "route list"
  mux_NotFoundHandler :: "string \<Rightarrow> response"

record ('pa, 'po, 'ac, 'sc, 'st) http_server =
  Addr :: string
  srv_cors :: cors
  srv_router :: "('pa, 'po, 'ac, 'sc, 'st) mux_router"
  srv_ReadTimeout :: int
  srv_WriteTimeout :: int
  srv_IdleTimeout :: int

subsection \<open>The environment of one run\<close>

text \<open>
  Everything \<open>main\<close> obtains from outside: the results of the fallible calls, the process
  environment, whether \<open>ListenAndServe\<close> fails at once (an error other than
  \<open>http.ErrServerClosed\<close>), whether SIGINT or SIGTERM is delivered, and the result of
  \<open>srv.Shutdown\<close>. The server goroutine is ordered before the signal.
\<close>

record ('pa, 'po, 'ac, 'sc, 'st) env =
  config_Load :: "string + ('pa, 'po, 'ac, 'sc) config"
  NewSQLiteStorageService :: "'sc \<Rightarrow> string + 'st"
  fs_Sub :: "string + dist_fs"
  Getenv :: "string \<Rightarrow> string"
  ListenAndServe :: "string option"
  signal :: bool
  Shutdown :: "string option"

datatype outcome =
    Exit1    \<comment> \<open>\<open>logger.Fatalf\<close>\<close>
  | Exit0    \<comment> \<open>\<open>main\<close> returns\<close>
  | Serving  \<comment> \<open>blocked on \<open><-quit\<close>\<close>

record ('pa, 'po, 'ac, 'sc, 'st) run =
  log :: "log_entry list"
  server :: "('pa, 'po, 'ac, 'sc, 'st) http_server option"
  shutdown_timeout :: "nat option"  \<comment> \<open>seconds given to \<open>srv.Shutdown\<close>, once called\<close>
  outcome :: outcome

definition fatal :: "log_entry list \<Rightarrow> nat \<Rightarrow> string \<Rightarrow> string
    \<Rightarrow> ('pa, 'po, 'ac, 'sc, 'st) http_server option \<Rightarrow> nat option
    \<Rightarrow> ('pa, 'po, 'ac, 'sc, 'st) run" where
  "fatal lg line fmt err srv t =
     \<lparr>log = lg @ [(line, Fatalf fmt [err])], server = srv, shutdown_timeout = t,
      outcome = Exit1\<rparr>"

text \<open>The loop over \<open>proxyEnvVars\<close> (main.go, lines 119 to 127), with \<open>detectedProxy\<close> threaded.\<close>

fun detect_proxy :: "(string \<Rightarrow> string) \<Rightarrow> string list \<Rightarrow> bool \<Rightarrow> log_entry list \<times> bool" where
  "detect_proxy getenv [] detectedProxy = ([], detectedProxy)"
| "detect_proxy getenv (e # es) detectedProxy =
     (let val = getenv e in
      if val \<noteq> [] then
        (let (rest, d) = detect_proxy getenv es True in
         ((if \<not> detectedProxy
           then [(122, Println ''HTTP/HTTPS proxy detected! All outbound API requests will be routed through:'')]
           else [])
          @ [(125, Printf ''   %s=%s'' [e, val])] @ rest, d))
      else detect_proxy getenv es detectedProxy)"

definition proxyEnvVars :: "string list" where
  "proxyEnvVars =
     [''HTTP_PROXY'', ''http_proxy'', ''HTTPS_PROXY'', ''https_proxy'', ''NO_PROXY'', ''no_proxy'']"

text \<open>The lines main.go logs when no proxy variable is set (lines 129 to 133).\<close>

definition no_proxy_messages :: "log_entry list" where
  "no_proxy_messages =
     [(129, Println ''No HTTP/HTTPS proxy detected. If you are behind a firewall, API calls may fail!''),
      (130, Println ''   Set proxy environment variables before starting:''),
      (131, Printf ''     export HTTP_PROXY=http://your-proxy:port'' []),
      (132, Printf ''     export HTTPS_PROXY=http://your-proxy:port'' []),
      (133, Printf ''     export NO_PROXY=localhost,127.0.0.1'' [])]"

text \<open>The proxy detection of main.go (lines 116 to 134).\<close>

definition proxy_messages :: "(string \<Rightarrow> string) \<Rightarrow> log_entry list" where
  "proxy_messages getenv =
     (let (msgs, detectedProxy) = detect_proxy getenv proxyEnvVars False in
      msgs @ (if \<not> detectedProxy then no_proxy_messages else []))"

text \<open>
  The lines the server goroutine logs before \<open>srv.ListenAndServe\<close>. \<open>banner\<close> is written by
  both files, from line 137 on in main.go and from line 117 on in the other file;
  \<open>usage_hint\<close> is written by main.go only (lines 145 to 149).
\<close>

definition banner :: "nat \<Rightarrow> string \<Rightarrow> log_entry list" where
  "banner line port =
     [(line, Printf ''Claude Code Monitor Server running on http://localhost:%s'' [port]),
      (line + 1, Printf ''API endpoints available at:'' []),
      (line + 2, Printf ''   - POST http://localhost:%s/v1/messages (Anthropic format)'' [port]),
      (line + 3, Printf ''   - GET  http://localhost:%s/v1/models'' [port]),
      (line + 4, Printf ''   - GET  http://localhost:%s/health'' [port]),
      (line + 5, Printf ''Web UI available at:'' []),
      (line + 6, Printf ''   - GET  http://localhost:%s/ (Request Visualizer)'' [port]),
      (line + 7, Printf ''   - GET  http://localhost:%s/api/requests (Request API)'' [port])]"

definition usage_hint :: "string \<Rightarrow> log_entry list" where
  "usage_hint port =
     [(145, Println []),
      (146, Println ''To use with Claude Code, run:''),
      (147, Printf ''   export ANTHROPIC_BASE_URL=http://localhost:%s'' [port]),
      (148, Println ''   claude''),
      (149, Println [])]"

subsection \<open>The two \<open>main\<close> functions\<close>

text \<open>
  The CORS options (lines 55 to 59) and the nine \<open>r.HandleFunc\<close> registrations (lines 63 to
  72), in the order of registration; both files have the same text there.
\<close>

definition corsHandler :: cors where
  "corsHandler =
     \<lparr>AllowedOrigins = [''*''],
      AllowedMethods = [''GET'', ''POST'', ''PUT'', ''DELETE'', ''OPTIONS''],
      AllowedHeaders = [''*'']\<rparr>"

definition api_routes :: "route list" where
  "api_routes =
     [HandleFunc ''/v1/chat/completions'' ChatCompletions [''POST''],
      HandleFunc ''/v1/messages'' Messages [''POST''],
      HandleFunc ''/v1/models'' Models [''GET''],
      HandleFunc ''/health'' Health [''GET''],
      HandleFunc ''/api/requests'' GetRequests [''GET''],
      HandleFunc ''/api/requests'' DeleteRequests [''DELETE''],
      HandleFunc ''/api/conversations'' GetConversations [''GET''],
      HandleFunc ''/api/conversations/{id}'' GetConversationByID [''GET''],
      HandleFunc ''/api/conversations/project'' GetConversationsByProject [''GET'']]"

text \<open>\<open>main\<close> of src/proxy/cmd/proxy/main.go.\<close>

definition main_proxy ::
  "('pa, 'po, 'ac, 'sc, 'st) env \<Rightarrow> ('pa, 'po, 'ac, 'sc, 'st) run" where
  "main_proxy e =
     (let lg = Logger ''proxy: '' [LstdFlags, Lshortfile] in
      case config_Load e of
        Inl err \<Rightarrow> fatal [] 30 ''Failed to load configuration: %v'' err None None
      | Inr cfg \<Rightarrow>
         (let providers = [''anthropic'' \<mapsto> NewAnthropicProvider (cfg_Providers_Anthropic cfg),
                           ''openai'' \<mapsto> NewOpenAIProvider (cfg_Providers_OpenAI cfg)];
              modelRouter = NewModelRouter cfg providers lg;
              anthropicService = NewAnthropicService (cfg_Anthropic cfg)
          in case NewSQLiteStorageService e (cfg_Storage cfg) of
               Inl err \<Rightarrow> fatal [] 47 ''Failed to initialize SQLite storage: %v'' err None None
             | Inr storageService \<Rightarrow>
                (let log1 = [(49, Println ''SQLite database ready'')];
                     h = handler_New anthropicService storageService lg modelRouter
                 in case fs_Sub e of
                      Inl err \<Rightarrow> fatal log1 77 ''Failed to create sub filesystem: %v'' err None None
                    | Inr distFS \<Rightarrow>
                       (let r = \<lparr>mux_middleware = [''Logging''], mux_handler = h,
                                 mux_routes = api_routes @ [PathPrefix_fileServer ''/assets/''],
                                 mux_NotFoundHandler = NotFoundHandler distFS\<rparr>;
                            port = Port (cfg_Server cfg);
                            srv = \<lparr>Addr = '':'' @ port, srv_cors = corsHandler, srv_router = r,
                                   srv_ReadTimeout = ReadTimeout (cfg_Server cfg),
                                   srv_WriteTimeout = WriteTimeout (cfg_Server cfg),
                                   srv_IdleTimeout = IdleTimeout (cfg_Server cfg)\<rparr>;
                            log2 = log1 @ proxy_messages (Getenv e) @ banner 137 port @ usage_hint port
                        in case ListenAndServe e of
                             Some err \<Rightarrow>
                               fatal log2 152 ''Server failed to start: %v'' err (Some srv) None
                           | None \<Rightarrow>
                              if \<not> signal e
                              then \<lparr>log = log2, server = Some srv, shutdown_timeout = None,
                                    outcome = Serving\<rparr>
                              else
                                (let log3 = log2 @ [(160, Println ''Shutting down server...'')] in
                                 case Shutdown e of
                                   Some err \<Rightarrow>
                                     fatal log3 166 ''Server forced to shutdown: %v'' err (Some srv)
                                       (Some 30)
                                 | None \<Rightarrow>
                                     \<lparr>log = log3 @ [(169, Println ''Server exited'')],
                                      server = Some srv, shutdown_timeout = Some 30,
                                      outcome = Exit0\<rparr>)))))"

text \<open>\<open>main\<close> of the second entry point (src/unnamed/part_000).\<close>

definition main_unnamed ::
  "('pa, 'po, 'ac, 'sc, 'st) env \<Rightarrow> ('pa, 'po, 'ac, 'sc, 'st) run" where
  "main_unnamed e =
     (let lg = Logger ''proxy: '' [LstdFlags, Lshortfile] in
      case config_Load e of
        Inl err \<Rightarrow> fatal [] 30 ''Failed to load configuration: %v'' err None None
      | Inr cfg \<Rightarrow>
         (let providers = [''anthropic'' \<mapsto> NewAnthropicProvider (cfg_Providers_Anthropic cfg),
                           ''openai'' \<mapsto> NewOpenAIProvider (cfg_Providers_OpenAI cfg)];
              modelRouter = NewModelRouter cfg providers lg;
              anthropicService = NewAnthropicService (cfg_Anthropic cfg)
          in case NewSQLiteStorageService e (cfg_Storage cfg) of
               Inl err \<Rightarrow> fatal [] 47 ''Failed to initialize SQLite storage: %v'' err None None
             | Inr storageService \<Rightarrow>
                (let log1 = [(49, Println ''SQLite database ready'')];
                     h = handler_New anthropicService storageService lg modelRouter
                 in case fs_Sub e of
                      Inl err \<Rightarrow> fatal log1 77 ''Failed to create sub filesystem: %v'' err None None
                    | Inr distFS \<Rightarrow>
                       (let r = \<lparr>mux_middleware = [''Logging''], mux_handler = h,
                                 mux_routes = api_routes @ [PathPrefix_fileServer ''/assets/''],
                                 mux_NotFoundHandler = NotFoundHandler distFS\<rparr>;
                            port = Port (cfg_Server cfg);
                            srv = \<lparr>Addr = '':'' @ port, srv_cors = corsHandler, srv_router = r,
                                   srv_ReadTimeout = ReadTimeout (cfg_Server cfg),
                                   srv_WriteTimeout = WriteTimeout (cfg_Server cfg),
                                   srv_IdleTimeout = IdleTimeout (cfg_Server cfg)\<rparr>;
                            log2 = log1 @ banner 117 port
                        in case ListenAndServe e of
                             Some err \<Rightarrow>
                               fatal log2 127 ''Server failed to start: %v'' err (Some srv) None
                           | None \<Rightarrow>
                              if \<not> signal e
                              then \<lparr>log = log2, server = Some srv, shutdown_timeout = None,
                                    outcome = Serving\<rparr>
                              else
                                (let log3 = log2 @ [(135, Println ''Shutting down server...'')] in
                                 case Shutdown e of
                                   Some err \<Rightarrow>
                                     fatal log3 141 ''Server forced to shutdown: %v'' err (Some srv)
                                       (Some 30)
                                 | None \<Rightarrow>
                                     \<lparr>log = log3 @ [(144, Println ''Server exited'')],
                                      server = Some srv, shutdown_timeout = Some 30,
                                      outcome = Exit0\<rparr>)))))"

text \<open>
  What the registrations answer to: the (method, path, handler function) triples of the
  \<open>HandleFunc\<close> routes. The file-server prefix carries no method restriction and no handler
  function.
\<close>

fun route_surface :: "route \<Rightarrow> (string \<times> string \<times> handler_func) list" where
  "route_surface (HandleFunc p f ms) = map (\<lambda>m. (m, p, f)) ms"
| "route_surface (PathPrefix_fileServer p) = []"

definition http_surface ::
  "('pa, 'po, 'ac, 'sc, 'st) http_server \<Rightarrow> (string \<times> string \<times> handler_func) list" where
  "http_surface srv = concat (map route_surface (mux_routes (srv_router srv)))"

text \<open>
  Moving the source-line tag of a log entry: the same logging call standing \<open>k\<close> lines
  further down in the other file.
\<close>

definition relabel :: "nat \<Rightarrow> log_entry \<Rightarrow> log_entry" where
  "relabel k entry = (fst entry + k, snd entry)"

subsection \<open>How the server answers a request\<close>

text \<open>
  \<open>srv.Handler\<close> is \<open>corsHandler(r)\<close>: the CORS handler of gorilla/handlers around the
  gorilla/mux router. Neither library is part of the repository; the definitions below follow
  their \<open>ServeHTTP\<close> as far as the choice of the answering handler goes.
\<close>

text \<open>\<open>strings.Split(s, "/")\<close>.\<close>

fun split_slash :: "string \<Rightarrow> string list" where
  "split_slash [] = [[]]"
| "split_slash (c # cs) =
     (if c = CHR ''/'' then [] # split_slash cs
      else (case split_slash cs of
              [] \<Rightarrow> [[c]]
            | seg # segs \<Rightarrow> (c # seg) # segs))"

text \<open>
  Go's \<open>path.Clean\<close> on a rooted path: empty and \<open>.\<close> elements are dropped, a \<open>..\<close> element
  removes the element before it (none at the root). \<open>acc\<close> holds the kept elements, last
  first.
\<close>

fun clean_segments :: "string list \<Rightarrow> string list \<Rightarrow> string list" where
  "clean_segments acc [] = rev acc"
| "clean_segments acc (seg # segs) =
     (if seg = [] \<or> seg = ''.'' then clean_segments acc segs
      else if seg = ''..'' then clean_segments (tl acc) segs
      else clean_segments (seg # acc) segs)"

definition path_Clean :: "string \<Rightarrow> string" where
  "path_Clean p =
     (case clean_segments [] (split_slash p) of
        [] \<Rightarrow> ''/''
      | segs \<Rightarrow> concat (map (\<lambda>seg. CHR ''/'' # seg) segs))"

text \<open>
  \<open>cleanPath\<close> of gorilla/mux: the path is rooted, cleaned, and given back the trailing slash
  that \<open>path.Clean\<close> removes.
\<close>

definition cleanPath :: "string \<Rightarrow> string" where
  "cleanPath p =
     (if p = [] then ''/''
      else (let rooted = (if hd p \<noteq> CHR ''/'' then CHR ''/'' # p else p);
                np = path_Clean rooted
            in if last rooted = CHR ''/'' \<and> np \<noteq> ''/'' then np @ ''/'' else np))"

text \<open>
  A path template of gorilla/mux matches a path element by element: an element of the form
  \<open>{name}\<close> matches any non-empty element, any other element matches itself.
\<close>

definition is_variable :: "string \<Rightarrow> bool" where
  "is_variable seg = (seg \<noteq> [] \<and> hd seg = CHR ''{'' \<and> last seg = CHR ''}'')"

fun segments_match :: "string list \<Rightarrow> string list \<Rightarrow> bool" where
  "segments_match [] [] = True"
| "segments_match (t # ts) (seg # segs) =
     ((if is_variable t then seg \<noteq> [] else t = seg) \<and> segments_match ts segs)"
| "segments_match [] (seg # segs) = False"
| "segments_match (t # ts) [] = False"

fun route_matches_path :: "route \<Rightarrow> string \<Rightarrow> bool" where
  "route_matches_path (HandleFunc template f ms) path =
     segments_match (split_slash template) (split_slash path)"
| "route_matches_path (PathPrefix_fileServer pre) path = HasPrefix path pre"

fun route_matches_method :: "route \<Rightarrow> string \<Rightarrow> bool" where
  "route_matches_method (HandleFunc template f ms) method = (method \<in> set ms)"
| "route_matches_method (PathPrefix_fileServer pre) method = True"

text \<open>
  What the router finds for a request: the routes are tried in the order of registration,
  the first one that matches path and method wins; when none does, a route whose path
  matched while its method did not makes the answer 405, otherwise the request goes to
  \<open>NotFoundHandler\<close>.
\<close>

datatype target =
    Route_handler handler_func
  | Route_fileServer
  | Method_mismatch
  | No_match

fun mux_match :: "route list \<Rightarrow> string \<Rightarrow> string \<Rightarrow> bool \<Rightarrow> target" where
  "mux_match [] method path mismatch = (if mismatch then Method_mismatch else No_match)"
| "mux_match (HandleFunc template f ms # rs) method path mismatch =
     (if route_matches_path (HandleFunc template f ms) path
      then (if method \<in> set ms then Route_handler f else mux_match rs method path True)
      else mux_match rs method path mismatch)"
| "mux_match (PathPrefix_fileServer pre # rs) method path mismatch =
     (if HasPrefix path pre then Route_fileServer else mux_match rs method path mismatch)"

text \<open>
  The answer of the server to a request with a method and a path. The CORS handler answers
  every OPTIONS request itself and passes every other request on; the router redirects a
  path that is not clean (301) before it matches; a matched handler function runs behind the
  \<open>Logging\<close> middleware, which is not called for the 405 answer nor for \<open>NotFoundHandler\<close>.
\<close>

datatype answer =
    CORS_answers_OPTIONS
  | Redirect_to_clean_path string
  | Handler_called handler_func
  | FileServer_called response
  | MethodNotAllowed
  | NotFoundHandler_called response

definition ServeHTTP ::
  "('pa, 'po, 'ac, 'sc, 'st) http_server \<Rightarrow> string \<Rightarrow> string \<Rightarrow> answer" where
  "ServeHTTP srv method path =
     (if method = ''OPTIONS'' then CORS_answers_OPTIONS
      else if cleanPath path \<noteq> path then Redirect_to_clean_path (cleanPath path)
      else (case mux_match (mux_routes (srv_router srv)) method path False of
              Route_handler f \<Rightarrow> Handler_called f
            | Route_fileServer \<Rightarrow> FileServer_called (fileServer_ServeHTTP path)
            | Method_mismatch \<Rightarrow> MethodNotAllowed
            | No_match \<Rightarrow> NotFoundHandler_called (mux_NotFoundHandler (srv_router srv) path)))"

section \<open>The canonical request of the spec (section 3)\<close>

text \<open>
  The packages that declare the canonical representation and the wire formats are not among
  the source files; the types of this section follow the data model of the spec.
\<close>

text \<open>
  Modelled from the spec: the role of a canonical message (the declaring package is
  missing), "role in {system, user, assistant, tool}".
\<close>

datatype role = System | User | Assistant | Tool

text \<open>
  Modelled from the spec: the typed content blocks (the declaring package is missing): text,
  image, tool call (identifier, name, arguments) and tool result (identifier of the call,
  content). Arguments and image data are opaque strings, "never reparsed for semantics".
\<close>

datatype content_block =
    TextBlock string
  | ImageBlock string
  | ToolCall string string string
  | ToolResult string string

text \<open>
  Modelled from the spec: the content of a message (the declaring package is missing),
  "text or structured content blocks".
\<close>

datatype content =
    TextContent string
  | BlockContent "content_block list"

text \<open>Modelled from the spec: a canonical message (the declaring package is missing).\<close>

record message =
  msg_role :: role
  msg_content :: content

text \<open>
  Modelled from the spec: a tool or function definition (the declaring package is missing),
  carried through every translation unchanged.
\<close>

record tool_definition =
  tool_name :: string
  tool_description :: string
  tool_parameters :: string

text \<open>
  Modelled from the spec: the sampling parameters (the declaring package is missing),
  "temperature, max tokens, top-p, stop sequences"; the two fractions are kept as the
  number literals of the payload.
\<close>

record sampling =
  temperature :: "string option"
  max_tokens :: "nat option"
  top_p :: "string option"
  stop_sequences :: "string list"

text \<open>
  Modelled from the spec: the CanonicalRequest (the declaring package is missing): model
  identifier, ordered messages, tool definitions, sampling parameters, streaming flag.
\<close>

record canonical_request =
  req_model :: string
  req_messages :: "message list"
  req_tools :: "tool_definition list"
  req_sampling :: sampling
  req_stream :: bool

section \<open>The Model Router of the spec (section 4.2)\<close>

text \<open>
  \<open>service.NewModelRouter\<close> is called by \<open>main\<close>, but the package that defines the router,
  its \<open>Route\<close> and its \<open>Execute\<close> is not among the source files. The definitions of this
  section follow the words of the spec.
\<close>

subsection \<open>Route\<close>

text \<open>
  Modelled from the spec: the static mapping table and the default provider of the router's
  configuration (the config package is missing). The table maps a caller-facing model
  identifier to a provider name and an upstream model name; it is kept as the list of its
  entries, in the order the configuration supplies them.
\<close>

record route_config =
  mapping_table :: "(string \<times> string \<times> string) list"
  default_provider :: string

text \<open>
  Modelled from the spec: the table lookup of \<open>Route\<close> (the router package is missing). The
  first entry for the identifier is the one found.
\<close>

fun lookup_model :: "(string \<times> string \<times> string) list \<Rightarrow> string \<Rightarrow> (string \<times> string) option" where
  "lookup_model [] ident = None"
| "lookup_model ((k, d) # rest) ident = (if k = ident then Some d else lookup_model rest ident)"

text \<open>
  Modelled from the spec: \<open>Route\<close> (the router package is missing). "Look up the caller's
  model identifier in a static, configuration-supplied table; if absent, apply a default
  provider with the identifier passed through unchanged". The result is the RouteDecision
  (provider name, upstream model name).
\<close>

definition Route :: "route_config \<Rightarrow> canonical_request \<Rightarrow> string \<times> string" where
  "Route rc req =
     (case lookup_model (mapping_table rc) (req_model req) of
        Some decision \<Rightarrow> decision
      | None \<Rightarrow> (default_provider rc, req_model req))"

subsection \<open>Execute\<close>

text \<open>
  Modelled from the spec: the error taxonomy of section 7 (the packages that define the
  errors are missing). A ProviderError is a transport failure, an upstream response with a
  status that is not 2xx, or a malformed upstream payload; a TranslationError carries its
  message.
\<close>

datatype provider_error =
    TransportFailure
  | UpstreamStatus nat
  | MalformedPayload

datatype translation_error = TranslationError string

datatype upstream_error =
    Translation translation_error
  | Provider provider_error
  | NoAttempt  \<comment> \<open>the attempt budget was zero\<close>

text \<open>
  Modelled from the spec: which failures are retried (the router package is missing):
  "transient failures only: network errors, 5xx upstream responses, and upstream rate-limit
  (429) responses. Non-retryable: 4xx responses other than 429".
\<close>

fun retryable :: "provider_error \<Rightarrow> bool" where
  "retryable TransportFailure = True"
| "retryable (UpstreamStatus s) = ((500 \<le> s \<and> s < 600) \<or> s = 429)"
| "retryable MalformedPayload = False"

text \<open>
  Modelled from the spec: the retry loop of \<open>Execute\<close> (the router package is missing), "up
  to N attempts on transient failures only". \<open>send i\<close> is the outcome of the upstream call
  made after \<open>i\<close> earlier calls, so a provider stub is a function of the call count. The
  loop returns the result and the number of upstream calls issued; \<open>latest\<close> is the error of
  the most recent failed attempt. Timeouts and backoff delays are wall-clock matters and have no
  part in which calls are issued: a timed-out attempt is a transport failure.
\<close>

fun attempt_loop ::
  "nat \<Rightarrow> nat \<Rightarrow> (nat \<Rightarrow> provider_error + 'r) \<Rightarrow> upstream_error \<Rightarrow> (upstream_error + 'r) \<times> nat" where
  "attempt_loop 0 calls send latest = (Inl latest, calls)"
| "attempt_loop (Suc n) calls send latest =
     (case send calls of
        Inr r \<Rightarrow> (Inr r, Suc calls)
      | Inl e \<Rightarrow>
          if retryable e then attempt_loop n (Suc calls) send (Provider e)
          else (Inl (Provider e), Suc calls))"

text \<open>
  Modelled from the spec: the stop reason of a CanonicalResponse (the declaring package is
  missing), "enum: end-turn, max-tokens, tool-use, stop-sequence, error".
\<close>

datatype stop_reason = EndTurn | MaxTokens | ToolUse | StopSequence | ErrorReason

text \<open>
  Modelled from the spec: the CanonicalResponse of section 3 (the declaring package is
  missing): generated content, stop reason, token usage counts, model actually used.
\<close>

record canonical_response =
  resp_content :: "content_block list"
  resp_stop_reason :: stop_reason
  resp_input_tokens :: nat
  resp_output_tokens :: nat
  resp_model :: string

text \<open>
  Modelled from the spec: a Provider (the provider package is missing; \<open>main\<close> only calls its
  two constructors). It "knows how to build an upstream HTTP request from a canonical
  internal request" and how to "parse an upstream response into a canonical internal
  response"; between the two lies the upstream call itself, whose outcome is a function of
  the number of calls made before, so that a stub can script it. Building and parsing are the
  translation-in and the translation-out of \<open>Execute\<close> and may end in a TranslationError.
\<close>

record ('w, 'v) Provider =
  build_request :: "canonical_request \<Rightarrow> translation_error + 'w"
  upstream_call :: "nat \<Rightarrow> 'w \<Rightarrow> provider_error + 'v"
  parse_response :: "'v \<Rightarrow> translation_error + canonical_response"

text \<open>
  Modelled from the spec: \<open>Execute(CanonicalRequest) -> CanonicalResponse | UpstreamError\<close>
  (the router package is missing), which "orchestrates translation-in, provider call,
  translation-out", the provider call wrapped in the retry loop with the configured number
  of attempts. The provider is the one \<open>Route\<close> has selected. A TranslationError of either
  translation propagates at once. The result is paired with the number of upstream calls
  issued.
\<close>

definition Execute ::
  "nat \<Rightarrow> ('w, 'v) Provider \<Rightarrow> canonical_request \<Rightarrow> (upstream_error + canonical_response) \<times> nat" where
  "Execute max_retries p req =
     (case build_request p req of
        Inl err \<Rightarrow> (Inl (Translation err), 0)
      | Inr w \<Rightarrow>
         (case attempt_loop max_retries 0 (\<lambda>i. upstream_call p i w) NoAttempt of
            (Inl err, calls) \<Rightarrow> (Inl err, calls)
          | (Inr v, calls) \<Rightarrow>
             (case parse_response p v of
                Inl err \<Rightarrow> (Inl (Translation err), calls)
              | Inr r \<Rightarrow> (Inr r, calls))))"


text \<open>The default of the retry count: \<open>ENV ANTHROPIC_MAX_RETRIES=3\<close> (Dockerfile, line 63).\<close>

definition ANTHROPIC_MAX_RETRIES :: nat where
  "ANTHROPIC_MAX_RETRIES = 3"

text \<open>
  Modelled from the spec: a Provider stub (section 8): a provider whose upstream call follows
  a script, one outcome for each call, and which passes the canonical request and the
  canonical response through as they are.
\<close>

definition Provider_stub ::
  "(nat \<Rightarrow> provider_error + canonical_response) \<Rightarrow> (canonical_request, canonical_response) Provider" where
  "Provider_stub script =
     \<lparr>build_request = Inr, upstream_call = (\<lambda>i w. script i), parse_response = Inr\<rparr>"

text \<open>
  Modelled from the spec: the scripts of the two stubs of section 8: one fails with status
  500 on its first \<open>K\<close> calls and returns \<open>r\<close> on every later call, the other answers every
  call with the same status.
\<close>

definition fails_then_succeeds :: "nat \<Rightarrow> canonical_response \<Rightarrow> nat \<Rightarrow> provider_error + canonical_response" where
  "fails_then_succeeds K r i = (if i < K then Inl (UpstreamStatus 500) else Inr r)"

definition always_status :: "nat \<Rightarrow> nat \<Rightarrow> provider_error + canonical_response" where
  "always_status s i = Inl (UpstreamStatus s)"

section \<open>The Format Translator of the spec (section 4.1)\<close>

text \<open>
  The translator package is not among the source files. The definitions of this section
  follow the mapping rules of the spec for requests: the system role is relocated between an
  OpenAI message and the Anthropic top-level field; the \<open>tool_calls\<close> of an OpenAI assistant
  message and the \<open>tool_use\<close> blocks of Anthropic are the tool-call blocks of the canonical
  form; \<open>tool\<close> role messages and \<open>tool_result\<close> blocks are the canonical tool messages; typed
  blocks pass through, and a block the target format cannot hold is a TranslationError, as
  are an empty message list and an unknown role. Section 4.1 types \<open>fromCanonical\<close> on
  responses; the round trip of section 8 composes it with \<open>toCanonical\<close> on requests, so it
  is the request direction of the "bidirectional mapping" of section 2 that is defined here.
\<close>

text \<open>Modelled from the spec: the two wire formats (the translator package is missing).\<close>

datatype wire_format = OpenAI | Anthropic

text \<open>
  Modelled from the spec: translating every element of a list, the first TranslationError
  ending the translation (the translator package is missing).
\<close>

fun traverse :: "('a \<Rightarrow> translation_error + 'b) \<Rightarrow> 'a list \<Rightarrow> translation_error + 'b list" where
  "traverse f [] = Inr []"
| "traverse f (x # xs) =
     (case f x of
        Inl err \<Rightarrow> Inl err
      | Inr y \<Rightarrow> (case traverse f xs of Inl err \<Rightarrow> Inl err | Inr ys \<Rightarrow> Inr (y # ys)))"

text \<open>
  Modelled from the spec: sequencing of two translations, an error of the first one
  propagating (the translator package is missing).
\<close>

fun and_then :: "translation_error + 'a \<Rightarrow> ('a \<Rightarrow> translation_error + 'b) \<Rightarrow> translation_error + 'b" where
  "and_then (Inl err) f = Inl err"
| "and_then (Inr x) f = f x"

subsection \<open>The OpenAI chat-completions request\<close>

text \<open>
  Modelled from the spec: the OpenAI wire request (the translator package is missing). A
  message has a role string, a content that is a string or a list of text and image parts,
  the \<open>tool_calls\<close> array and, on a tool message, the \<open>tool_call_id\<close>.
\<close>

datatype openai_part = TextPart string | ImageUrlPart string

text \<open>Modelled from the spec: the content of an OpenAI message (the translator package is missing).\<close>

datatype openai_content = StringContent string | PartsContent "openai_part list"

text \<open>
  Modelled from the spec: one entry of \<open>tool_calls\<close>: identifier, function name, arguments
  (the translator package is missing).
\<close>

datatype openai_tool_call = FunctionCall string string string

text \<open>Modelled from the spec: an OpenAI message (the translator package is missing).\<close>

record openai_message =
  o_role :: string
  o_content :: openai_content
  o_tool_calls :: "openai_tool_call list"
  o_tool_call_id :: "string option"

text \<open>Modelled from the spec: an OpenAI request (the translator package is missing).\<close>

record openai_request =
  o_model :: string
  o_messages :: "openai_message list"
  o_tools :: "tool_definition list"
  o_sampling :: sampling
  o_stream :: bool

text \<open>
  Modelled from the spec: OpenAI parts and tool calls as canonical blocks, and back (the
  translator package is missing). A canonical block that is no part, or no tool call, has no
  OpenAI counterpart of that kind.
\<close>

fun part_block :: "openai_part \<Rightarrow> content_block" where
  "part_block (TextPart s) = TextBlock s"
| "part_block (ImageUrlPart u) = ImageBlock u"

text \<open>Modelled from the spec: a tool call as a canonical block (the translator package is missing).\<close>

fun call_block :: "openai_tool_call \<Rightarrow> content_block" where
  "call_block (FunctionCall i n a) = ToolCall i n a"

text \<open>Modelled from the spec: a canonical block as an OpenAI part (the translator package is missing).\<close>

fun block_part :: "content_block \<Rightarrow> openai_part option" where
  "block_part (TextBlock s) = Some (TextPart s)"
| "block_part (ImageBlock u) = Some (ImageUrlPart u)"
| "block_part (ToolCall i n a) = None"
| "block_part (ToolResult i s) = None"

text \<open>Modelled from the spec: a canonical block as an OpenAI tool call (the translator package is missing).\<close>

fun block_call :: "content_block \<Rightarrow> openai_tool_call option" where
  "block_call (ToolCall i n a) = Some (FunctionCall i n a)"
| "block_call (TextBlock s) = None"
| "block_call (ImageBlock u) = None"
| "block_call (ToolResult i s) = None"

text \<open>Modelled from the spec: whether a canonical block is a text or image block (the translator package is missing).\<close>

fun is_part :: "content_block \<Rightarrow> bool" where
  "is_part (TextBlock s) = True"
| "is_part (ImageBlock u) = True"
| "is_part (ToolCall i n a) = False"
| "is_part (ToolResult i s) = False"

text \<open>Modelled from the spec: OpenAI content as canonical content (the translator package is missing).\<close>

fun openai_content_in :: "openai_content \<Rightarrow> content" where
  "openai_content_in (StringContent s) = TextContent s"
| "openai_content_in (PartsContent ps) = BlockContent (map part_block ps)"

text \<open>Modelled from the spec: OpenAI content as a list of canonical blocks (the translator package is missing).\<close>

fun openai_blocks :: "openai_content \<Rightarrow> content_block list" where
  "openai_blocks (StringContent s) = [TextBlock s]"
| "openai_blocks (PartsContent ps) = map part_block ps"

text \<open>
  Modelled from the spec: one OpenAI message to canonical (the translator package is
  missing). The \<open>tool_calls\<close> of an assistant message follow its content as tool-call
  blocks; a tool message becomes a canonical tool message holding the tool result; tool
  fields on another role, and an unknown role, are rejected.
\<close>

definition openai_message_in :: "openai_message \<Rightarrow> translation_error + message" where
  "openai_message_in m =
     (if o_role m = ''system'' \<or> o_role m = ''user'' then
        (if o_tool_calls m = [] \<and> o_tool_call_id m = None
         then Inr \<lparr>msg_role = (if o_role m = ''system'' then System else User),
                   msg_content = openai_content_in (o_content m)\<rparr>
         else Inl (TranslationError ''tool fields on a system or user message''))
      else if o_role m = ''assistant'' then
        (if o_tool_call_id m \<noteq> None
         then Inl (TranslationError ''tool_call_id on an assistant message'')
         else if o_tool_calls m = []
         then Inr \<lparr>msg_role = Assistant, msg_content = openai_content_in (o_content m)\<rparr>
         else Inr \<lparr>msg_role = Assistant,
                   msg_content = BlockContent (openai_blocks (o_content m)
                                               @ map call_block (o_tool_calls m))\<rparr>)
      else if o_role m = ''tool'' then
        (case (o_tool_call_id m, o_content m, o_tool_calls m) of
           (Some i, StringContent s, []) \<Rightarrow>
             Inr \<lparr>msg_role = Tool, msg_content = BlockContent [ToolResult i s]\<rparr>
         | _ \<Rightarrow> Inl (TranslationError ''malformed tool message''))
      else Inl (TranslationError ''unknown role''))"

text \<open>
  Modelled from the spec: canonical content to OpenAI content (the translator package is
  missing); a block that is neither text nor image is absent in the target format.
\<close>

fun openai_content_out :: "content \<Rightarrow> translation_error + openai_content" where
  "openai_content_out (TextContent s) = Inr (StringContent s)"
| "openai_content_out (BlockContent bs) =
     (case those (map block_part bs) of
        Some ps \<Rightarrow> Inr (PartsContent ps)
      | None \<Rightarrow> Inl (TranslationError ''content block absent in the OpenAI format''))"

text \<open>
  Modelled from the spec: one canonical message to OpenAI (the translator package is
  missing). The tool-call blocks of an assistant message must follow its text and image
  blocks, since \<open>tool_calls\<close> is a field of its own and cannot keep another order; a tool
  message must hold exactly one tool result.
\<close>

definition openai_message_out :: "message \<Rightarrow> translation_error + openai_message" where
  "openai_message_out m =
     (case msg_role m of
        System \<Rightarrow>
          (case openai_content_out (msg_content m) of
             Inl err \<Rightarrow> Inl err
           | Inr c \<Rightarrow> Inr \<lparr>o_role = ''system'', o_content = c, o_tool_calls = [],
                           o_tool_call_id = None\<rparr>)
      | User \<Rightarrow>
          (case openai_content_out (msg_content m) of
             Inl err \<Rightarrow> Inl err
           | Inr c \<Rightarrow> Inr \<lparr>o_role = ''user'', o_content = c, o_tool_calls = [],
                           o_tool_call_id = None\<rparr>)
      | Assistant \<Rightarrow>
          (case msg_content m of
             TextContent s \<Rightarrow>
               Inr \<lparr>o_role = ''assistant'', o_content = StringContent s, o_tool_calls = [],
                    o_tool_call_id = None\<rparr>
           | BlockContent bs \<Rightarrow>
               (case (those (map block_part (takeWhile is_part bs)),
                      those (map block_call (dropWhile is_part bs))) of
                  (Some ps, Some cs) \<Rightarrow>
                    Inr \<lparr>o_role = ''assistant'', o_content = PartsContent ps, o_tool_calls = cs,
                         o_tool_call_id = None\<rparr>
                | _ \<Rightarrow> Inl (TranslationError ''content block absent in the OpenAI format'')))
      | Tool \<Rightarrow>
          (case msg_content m of
             BlockContent [ToolResult i s] \<Rightarrow>
               Inr \<lparr>o_role = ''tool'', o_content = StringContent s, o_tool_calls = [],
                    o_tool_call_id = Some i\<rparr>
           | _ \<Rightarrow> Inl (TranslationError ''malformed tool message'')))"

text \<open>
  Modelled from the spec: an OpenAI request to canonical (the translator package is
  missing); an empty message list is rejected, the other fields pass through.
\<close>

definition openai_in :: "openai_request \<Rightarrow> translation_error + canonical_request" where
  "openai_in r =
     (if o_messages r = [] then Inl (TranslationError ''empty message list'')
      else (case traverse openai_message_in (o_messages r) of
              Inl err \<Rightarrow> Inl err
            | Inr ms \<Rightarrow> Inr \<lparr>req_model = o_model r, req_messages = ms, req_tools = o_tools r,
                             req_sampling = o_sampling r, req_stream = o_stream r\<rparr>))"

text \<open>Modelled from the spec: a canonical request to OpenAI (the translator package is missing).\<close>

definition openai_out :: "canonical_request \<Rightarrow> translation_error + openai_request" where
  "openai_out c =
     (if req_messages c = [] then Inl (TranslationError ''empty message list'')
      else (case traverse openai_message_out (req_messages c) of
              Inl err \<Rightarrow> Inl err
            | Inr ms \<Rightarrow> Inr \<lparr>o_model = req_model c, o_messages = ms, o_tools = req_tools c,
                             o_sampling = req_sampling c, o_stream = req_stream c\<rparr>))"

subsection \<open>The Anthropic messages request\<close>

text \<open>
  Modelled from the spec: the typed content blocks of the Anthropic wire format (the
  translator package is missing).
\<close>

datatype anthropic_block =
    text_block string
  | image_block string
  | tool_use string string string
  | tool_result string string

text \<open>Modelled from the spec: the content of an Anthropic message (the translator package is missing).\<close>

datatype anthropic_content = AString string | ABlocks "anthropic_block list"

text \<open>Modelled from the spec: an Anthropic message (the translator package is missing).\<close>

record anthropic_message =
  a_role :: string
  a_content :: anthropic_content

text \<open>
  Modelled from the spec: an Anthropic request, with its dedicated top-level \<open>system\<close> field
  (the translator package is missing).
\<close>

record anthropic_request =
  a_model :: string
  a_system :: "string option"
  a_messages :: "anthropic_message list"
  a_tools :: "tool_definition list"
  a_sampling :: sampling
  a_stream :: bool

text \<open>Modelled from the spec: an Anthropic block as a canonical block (the translator package is missing).\<close>

fun anthropic_block_in :: "anthropic_block \<Rightarrow> content_block" where
  "anthropic_block_in (text_block s) = TextBlock s"
| "anthropic_block_in (image_block u) = ImageBlock u"
| "anthropic_block_in (tool_use i n a) = ToolCall i n a"
| "anthropic_block_in (tool_result i s) = ToolResult i s"

text \<open>Modelled from the spec: a canonical block as an Anthropic block (the translator package is missing).\<close>

fun anthropic_block_out :: "content_block \<Rightarrow> anthropic_block" where
  "anthropic_block_out (TextBlock s) = text_block s"
| "anthropic_block_out (ImageBlock u) = image_block u"
| "anthropic_block_out (ToolCall i n a) = tool_use i n a"
| "anthropic_block_out (ToolResult i s) = tool_result i s"

text \<open>Modelled from the spec: whether an Anthropic block is a \<open>tool_result\<close> (the translator package is missing).\<close>

fun is_tool_result :: "anthropic_block \<Rightarrow> bool" where
  "is_tool_result (tool_result i s) = True"
| "is_tool_result (text_block s) = False"
| "is_tool_result (image_block u) = False"
| "is_tool_result (tool_use i n a) = False"

text \<open>Modelled from the spec: whether an Anthropic block is text or image (the translator package is missing).\<close>

fun is_plain :: "anthropic_block \<Rightarrow> bool" where
  "is_plain (text_block s) = True"
| "is_plain (image_block u) = True"
| "is_plain (tool_use i n a) = False"
| "is_plain (tool_result i s) = False"

text \<open>Modelled from the spec: whether a canonical block is a tool result (the translator package is missing).\<close>

fun is_result :: "content_block \<Rightarrow> bool" where
  "is_result (ToolResult i s) = True"
| "is_result (TextBlock s) = False"
| "is_result (ImageBlock u) = False"
| "is_result (ToolCall i n a) = False"

text \<open>
  Modelled from the spec: a \<open>tool_result\<close> block as a canonical tool message (the translator
  package is missing).
\<close>

definition result_message :: "anthropic_block \<Rightarrow> message" where
  "result_message b = \<lparr>msg_role = Tool, msg_content = BlockContent [anthropic_block_in b]\<rparr>"

text \<open>
  Modelled from the spec: one Anthropic message to canonical messages (the translator
  package is missing). A user message made of \<open>tool_result\<close> blocks becomes one canonical
  tool message for each block; a user message of text and image blocks stays a user
  message; a user message that mixes the two, or holds a \<open>tool_use\<close>, cannot be encoded
  without loss and is rejected, as is a \<open>tool_result\<close> in an assistant message.
\<close>

definition anthropic_message_in :: "anthropic_message \<Rightarrow> translation_error + message list" where
  "anthropic_message_in m =
     (if a_role m = ''user'' then
        (case a_content m of
           AString s \<Rightarrow> Inr [\<lparr>msg_role = User, msg_content = TextContent s\<rparr>]
         | ABlocks bs \<Rightarrow>
             if bs \<noteq> [] \<and> list_all is_tool_result bs then Inr (map result_message bs)
             else if list_all is_plain bs
             then Inr [\<lparr>msg_role = User, msg_content = BlockContent (map anthropic_block_in bs)\<rparr>]
             else Inl (TranslationError ''tool blocks mixed into a user message''))
      else if a_role m = ''assistant'' then
        (case a_content m of
           AString s \<Rightarrow> Inr [\<lparr>msg_role = Assistant, msg_content = TextContent s\<rparr>]
         | ABlocks bs \<Rightarrow>
             if list_all (\<lambda>b. \<not> is_tool_result b) bs
             then Inr [\<lparr>msg_role = Assistant,
                        msg_content = BlockContent (map anthropic_block_in bs)\<rparr>]
             else Inl (TranslationError ''tool_result in an assistant message''))
      else Inl (TranslationError ''unknown role''))"

text \<open>
  Modelled from the spec: one canonical message to Anthropic (the translator package is
  missing). A system message has no place among the Anthropic messages; a canonical tool
  message becomes a user message holding the \<open>tool_result\<close> block.
\<close>

definition anthropic_message_out :: "message \<Rightarrow> translation_error + anthropic_message" where
  "anthropic_message_out m =
     (case msg_role m of
        System \<Rightarrow> Inl (TranslationError ''system message outside the head of the request'')
      | User \<Rightarrow>
          (case msg_content m of
             TextContent s \<Rightarrow> Inr \<lparr>a_role = ''user'', a_content = AString s\<rparr>
           | BlockContent bs \<Rightarrow>
               if list_all is_part bs
               then Inr \<lparr>a_role = ''user'', a_content = ABlocks (map anthropic_block_out bs)\<rparr>
               else Inl (TranslationError ''tool blocks in a user message''))
      | Assistant \<Rightarrow>
          (case msg_content m of
             TextContent s \<Rightarrow> Inr \<lparr>a_role = ''assistant'', a_content = AString s\<rparr>
           | BlockContent bs \<Rightarrow>
               if list_all (\<lambda>b. \<not> is_result b) bs
               then Inr \<lparr>a_role = ''assistant'', a_content = ABlocks (map anthropic_block_out bs)\<rparr>
               else Inl (TranslationError ''tool result in an assistant message''))
      | Tool \<Rightarrow>
          (case msg_content m of
             BlockContent [ToolResult i s] \<Rightarrow>
               Inr \<lparr>a_role = ''user'', a_content = ABlocks [tool_result i s]\<rparr>
           | _ \<Rightarrow> Inl (TranslationError ''malformed tool message'')))"

text \<open>
  Modelled from the spec: the relocation of the system role (the translator package is
  missing): the top-level \<open>system\<close> field is the canonical system message at the head of the
  request.
\<close>

definition system_message :: "string option \<Rightarrow> message list" where
  "system_message sys =
     (case sys of None \<Rightarrow> [] | Some s \<Rightarrow> [\<lparr>msg_role = System, msg_content = TextContent s\<rparr>])"

text \<open>
  Modelled from the spec: splitting a canonical message list into the \<open>system\<close> field and the
  messages that remain (the translator package is missing).
\<close>

fun split_system :: "message list \<Rightarrow> string option \<times> message list" where
  "split_system [] = (None, [])"
| "split_system (m # rest) =
     (case (msg_role m, msg_content m) of
        (System, TextContent s) \<Rightarrow> (Some s, rest)
      | _ \<Rightarrow> (None, m # rest))"

text \<open>
  Modelled from the spec: an Anthropic request to canonical (the translator package is
  missing); an empty message list is rejected, the \<open>system\<close> field becomes the first
  message, the other fields pass through.
\<close>

definition anthropic_in :: "anthropic_request \<Rightarrow> translation_error + canonical_request" where
  "anthropic_in r =
     (if a_messages r = [] then Inl (TranslationError ''empty message list'')
      else (case traverse anthropic_message_in (a_messages r) of
              Inl err \<Rightarrow> Inl err
            | Inr mss \<Rightarrow>
                Inr \<lparr>req_model = a_model r,
                     req_messages = system_message (a_system r) @ concat mss,
                     req_tools = a_tools r, req_sampling = a_sampling r,
                     req_stream = a_stream r\<rparr>))"

text \<open>Modelled from the spec: a canonical request to Anthropic (the translator package is missing).\<close>

definition anthropic_out :: "canonical_request \<Rightarrow> translation_error + anthropic_request" where
  "anthropic_out c =
     (case split_system (req_messages c) of
        (sys, body) \<Rightarrow>
          if body = [] then Inl (TranslationError ''empty message list'')
          else (case traverse anthropic_message_out body of
                  Inl err \<Rightarrow> Inl err
                | Inr ms \<Rightarrow>
                    Inr \<lparr>a_model = req_model c, a_system = sys, a_messages = ms,
                         a_tools = req_tools c, a_sampling = req_sampling c,
                         a_stream = req_stream c\<rparr>))"

subsection \<open>toCanonical and fromCanonical\<close>

text \<open>
  Modelled from the spec: a payload in one of the two wire formats (the translator package
  is missing).
\<close>

datatype payload =
    OpenAI_payload openai_request
  | Anthropic_payload anthropic_request

text \<open>
  Modelled from the spec: \<open>toCanonical(wireFormat, payload)\<close> (the translator package is
  missing); a payload of the other format is rejected.
\<close>

fun toCanonical :: "wire_format \<Rightarrow> payload \<Rightarrow> translation_error + canonical_request" where
  "toCanonical OpenAI (OpenAI_payload r) = openai_in r"
| "toCanonical Anthropic (Anthropic_payload r) = anthropic_in r"
| "toCanonical OpenAI (Anthropic_payload r) =
     Inl (TranslationError ''payload is not in the named wire format'')"
| "toCanonical Anthropic (OpenAI_payload r) =
     Inl (TranslationError ''payload is not in the named wire format'')"

text \<open>
  Modelled from the spec: \<open>fromCanonical(wireFormat, request)\<close>, the request direction (the
  translator package is missing).
\<close>

fun fromCanonical :: "wire_format \<Rightarrow> canonical_request \<Rightarrow> translation_error + payload" where
  "fromCanonical OpenAI c = and_then (openai_out c) (\<lambda>r. Inr (OpenAI_payload r))"
| "fromCanonical Anthropic c = and_then (anthropic_out c) (\<lambda>r. Inr (Anthropic_payload r))"

subsection \<open>Concrete runs\<close>

text \<open>
  A configuration with the defaults of the Dockerfile (port 3001, timeouts of 600, the data
  base at /app/data/requests.db), an embedded file system holding \<open>index.html\<close> and
  \<open>favicon.ico\<close>, and two environments: one where every call succeeds, one where the SQLite
  storage cannot be opened.
\<close>

definition cfg0 :: "(string, string, string, string) config" where
  "cfg0 = \<lparr>cfg_Providers_Anthropic = ''anthropic-provider'',
           cfg_Providers_OpenAI = ''openai-provider'',
           cfg_Anthropic = ''https://api.anthropic.com'',
           cfg_Storage = ''/app/data/requests.db'',
           cfg_Server = \<lparr>Port = ''3001'', ReadTimeout = 600, WriteTimeout = 600,
                          IdleTimeout = 600\<rparr>\<rparr>"

definition distFS0 :: dist_fs where
  "distFS0 = \<lparr>fs_Open = (\<lambda>n. n = ''favicon.ico'' \<or> n = ''index.html''),
              fs_ReadFile = (\<lambda>n. if n = ''index.html'' then Some ''<html></html>'' else None)\<rparr>"

definition env_ok :: "(string, string, string, string, nat) env" where
  "env_ok = \<lparr>config_Load = Inr cfg0, NewSQLiteStorageService = (\<lambda>p. Inr 0),
             fs_Sub = Inr distFS0, Getenv = (\<lambda>v. []), ListenAndServe = None,
             signal = True, Shutdown = None\<rparr>"

definition env_storage_down :: "(string, string, string, string, nat) env" where
  "env_storage_down =
     env_ok\<lparr>NewSQLiteStorageService := (\<lambda>p. Inl ''unable to open database file'')\<rparr>"

text \<open>
  A routing table with two entries, and a request with one user message for a given model.
\<close>

definition routes0 :: route_config where
  "routes0 = \<lparr>mapping_table = [(''gpt-4o'', ''openai'', ''gpt-4o-2024-08-06''),
                               (''claude-3-haiku'', ''anthropic'', ''claude-3-haiku-20240307'')],
              default_provider = ''anthropic''\<rparr>"

definition no_sampling :: sampling where
  "no_sampling = \<lparr>temperature = None, max_tokens = None, top_p = None, stop_sequences = []\<rparr>"

definition request_hi :: "string \<Rightarrow> canonical_request" where
  "request_hi m = \<lparr>req_model = m,
                   req_messages = [\<lparr>msg_role = User, msg_content = TextContent ''hi''\<rparr>],
                   req_tools = [], req_sampling = no_sampling, req_stream = False\<rparr>"

text \<open>
  An OpenAI request with a system message, a user message, an assistant message that calls a
  tool and the tool's answer; an Anthropic request with the same conversation.
\<close>

definition openai_example :: openai_request where
  "openai_example =
     \<lparr>o_model = ''gpt-4o'',
      o_messages =
        [\<lparr>o_role = ''system'', o_content = StringContent ''be brief'', o_tool_calls = [],
          o_tool_call_id = None\<rparr>,
         \<lparr>o_role = ''user'', o_content = PartsContent [TextPart ''what is in the picture'',
            ImageUrlPart ''data:image/png;base64,AAAA''], o_tool_calls = [],
          o_tool_call_id = None\<rparr>,
         \<lparr>o_role = ''assistant'', o_content = StringContent ''let me look'',
          o_tool_calls = [FunctionCall ''call_1'' ''describe'' ''{}''], o_tool_call_id = None\<rparr>,
         \<lparr>o_role = ''tool'', o_content = StringContent ''a cat'', o_tool_calls = [],
          o_tool_call_id = Some ''call_1''\<rparr>],
      o_tools = [\<lparr>tool_name = ''describe'', tool_description = ''describes an image'',
                  tool_parameters = ''{}''\<rparr>],
      o_sampling = no_sampling, o_stream = False\<rparr>"

definition anthropic_example :: anthropic_request where
  "anthropic_example =
     \<lparr>a_model = ''claude-3-haiku'', a_system = Some ''be brief'',
      a_messages =
        [\<lparr>a_role = ''user'', a_content = ABlocks [text_block ''what is in the picture'',
            image_block ''AAAA'']\<rparr>,
         \<lparr>a_role = ''assistant'', a_content = ABlocks [text_block ''let me look'',
            tool_use ''toolu_1'' ''describe'' ''{}'']\<rparr>,
         \<lparr>a_role = ''user'', a_content = ABlocks [tool_result ''toolu_1'' ''a cat'']\<rparr>],
      a_tools = [\<lparr>tool_name = ''describe'', tool_description = ''describes an image'',
                  tool_parameters = ''{}''\<rparr>],
      a_sampling = no_sampling\<lparr>max_tokens := Some 1024\<rparr>, a_stream = True\<rparr>"

text \<open>
  An environment in which two of the proxy variables are set.
\<close>

definition env_behind_proxy :: "(string, string, string, string, nat) env" where
  "env_behind_proxy =
     env_ok\<lparr>Getenv := (\<lambda>v. if v = ''HTTPS_PROXY'' then ''http://10.0.0.1:3128''
                           else if v = ''NO_PROXY'' then ''localhost'' else [])\<rparr>"

text \<open>
  A canonical response; a script whose first call fails with 503 and whose second call is
  answered with 404; a provider that builds its upstream request with the request
  translation to the OpenAI format and follows a script; a provider stub whose parsing
  refuses a response that holds a tool-result block; a canonical request with a tool result
  inside a user message, which the OpenAI format cannot hold, and a response of that kind.
\<close>

definition response_ok :: canonical_response where
  "response_ok = \<lparr>resp_content = [TextBlock ''hello''], resp_stop_reason = EndTurn,
                  resp_input_tokens = 3, resp_output_tokens = 1, resp_model = ''gpt-4o''\<rparr>"

definition unavailable_then_missing :: "nat \<Rightarrow> provider_error + canonical_response" where
  "unavailable_then_missing i = (if i = 0 then Inl (UpstreamStatus 503) else Inl (UpstreamStatus 404))"

definition openai_provider ::
  "(nat \<Rightarrow> provider_error + canonical_response) \<Rightarrow> (payload, canonical_response) Provider" where
  "openai_provider script =
     \<lparr>build_request = fromCanonical OpenAI, upstream_call = (\<lambda>i w. script i),
      parse_response = Inr\<rparr>"

definition strict_stub ::
  "(nat \<Rightarrow> provider_error + canonical_response) \<Rightarrow> (canonical_request, canonical_response) Provider" where
  "strict_stub script =
     \<lparr>build_request = Inr, upstream_call = (\<lambda>i w. script i),
      parse_response = (\<lambda>r. if list_all (\<lambda>b. \<not> is_result b) (resp_content r) then Inr r
                             else Inl (TranslationError ''content block absent in the target format''))\<rparr>"

definition request_tool_result :: canonical_request where
  "request_tool_result =
     \<lparr>req_model = ''gpt-4o'',
      req_messages = [\<lparr>msg_role = User,
                       msg_content = BlockContent [ToolResult ''call_1'' ''a cat'']\<rparr>],
      req_tools = [], req_sampling = no_sampling, req_stream = False\<rparr>"

definition response_tool_result :: canonical_response where
  "response_tool_result = response_ok\<lparr>resp_content := [ToolResult ''call_1'' ''a cat'']\<rparr>"

section \<open>Properties of the entry points\<close>

text \<open>
  What either \<open>main\<close> has built once it holds an \<open>http.Server\<close>: the three fallible calls
  have succeeded, and the router carries the registered routes, the fallback closure over the
  embedded file system, and the handler made from the legacy service, the storage and the model
  router.
\<close>

lemma main_builds:
  assumes "m = main_proxy \<or> m = main_unnamed" and "server (m e) = Some srv"
  shows "\<exists>cfg st distFS. config_Load e = Inr cfg
     \<and> NewSQLiteStorageService e (cfg_Storage cfg) = Inr st
     \<and> fs_Sub e = Inr distFS
     \<and> mux_routes (srv_router srv) = api_routes @ [PathPrefix_fileServer ''/assets/'']
     \<and> mux_NotFoundHandler (srv_router srv) = NotFoundHandler distFS
     \<and> mux_handler (srv_router srv) =
         handler_New (NewAnthropicService (cfg_Anthropic cfg)) st (Logger ''proxy: '' [LstdFlags, Lshortfile])
           (NewModelRouter cfg
              [''anthropic'' \<mapsto> NewAnthropicProvider (cfg_Providers_Anthropic cfg),
               ''openai'' \<mapsto> NewOpenAIProvider (cfg_Providers_OpenAI cfg)]
              (Logger ''proxy: '' [LstdFlags, Lshortfile]))"
  using assms
  by (auto simp: main_proxy_def main_unnamed_def fatal_def Let_def
           split: sum.splits option.splits if_splits)

text \<open>
  Conversely, when the three fallible calls succeed, either \<open>main\<close> builds its server,
  whatever happens to it afterwards.
\<close>

lemma main_builds_server:
  assumes "config_Load e = Inr cfg" and "NewSQLiteStorageService e (cfg_Storage cfg) = Inr st"
    and "fs_Sub e = Inr distFS"
  shows "server (main_proxy e) \<noteq> None" and "server (main_unnamed e) \<noteq> None"
  using assms
  by (simp_all add: main_proxy_def main_unnamed_def fatal_def Let_def split: option.splits)

lemma main_server_fs:
  assumes "m = main_proxy \<or> m = main_unnamed" and "fs_Sub e = Inr distFS"
    and "server (m e) = Some srv"
  shows "mux_routes (srv_router srv) = api_routes @ [PathPrefix_fileServer ''/assets/'']"
    and "mux_NotFoundHandler (srv_router srv) = NotFoundHandler distFS"
  using main_builds [OF assms(1,3)] assms(2) by auto

lemma env_ok_calls:
  "config_Load env_ok = Inr cfg0" "NewSQLiteStorageService env_ok (cfg_Storage cfg0) = Inr 0"
  "fs_Sub env_ok = Inr distFS0"
  by (simp_all add: env_ok_def)

lemma server_env_ok:
  "server (main_proxy env_ok) \<noteq> None" "server (main_unnamed env_ok) \<noteq> None"
  using main_builds_server [OF env_ok_calls] by simp_all

text \<open>
  Claim C6. When the configuration has loaded and \<open>NewSQLiteStorageService\<close> returns an
  error, both entry points end in \<open>logger.Fatalf\<close> on line 47: the process exits with status
  1, the only log line is the fatal message carrying the error, and no HTTP server has been
  built.
\<close>

theorem storage_failure_aborts_startup:
  assumes "config_Load e = Inr cfg"
    and "NewSQLiteStorageService e (cfg_Storage cfg) = Inl err"
  shows "outcome (main_proxy e) = Exit1 \<and> server (main_proxy e) = None
       \<and> log (main_proxy e) = [(47, Fatalf ''Failed to initialize SQLite storage: %v'' [err])]
       \<and> outcome (main_unnamed e) = Exit1 \<and> server (main_unnamed e) = None
       \<and> log (main_unnamed e) = [(47, Fatalf ''Failed to initialize SQLite storage: %v'' [err])]"
  using assms by (simp add: main_proxy_def main_unnamed_def fatal_def)

theorem storage_failure_aborts_startup_witness:
  "outcome (main_proxy env_storage_down) = Exit1 \<and> server (main_proxy env_storage_down) = None
   \<and> outcome (main_unnamed env_storage_down) = Exit1
   \<and> server (main_unnamed env_storage_down) = None"
  using storage_failure_aborts_startup [of env_storage_down cfg0 "''unable to open database file''"]
  by (simp add: env_storage_down_def env_ok_def)

text \<open>
  Claim C7 (as amended). The claim asks for a single Model Router path with no legacy
  Anthropic service beside it. Both entry points build the legacy service from
  \<open>cfg.Anthropic\<close> ("for backward compatibility", line 41) and hand it to \<open>handler.New\<close>
  together with the model router: the handler of every server they construct holds both.
\<close>

theorem legacy_service_beside_router:
  assumes "m = main_proxy \<or> m = main_unnamed" and "server (m e) = Some srv"
  shows "\<exists>cfg. config_Load e = Inr cfg
     \<and> h_anthropicService (mux_handler (srv_router srv)) = NewAnthropicService (cfg_Anthropic cfg)
     \<and> h_modelRouter (mux_handler (srv_router srv)) =
         NewModelRouter cfg
           [''anthropic'' \<mapsto> NewAnthropicProvider (cfg_Providers_Anthropic cfg),
            ''openai'' \<mapsto> NewOpenAIProvider (cfg_Providers_OpenAI cfg)]
           (Logger ''proxy: '' [LstdFlags, Lshortfile])"
proof -
  from main_builds [OF assms] obtain cfg st where "config_Load e = Inr cfg"
    "mux_handler (srv_router srv) =
         handler_New (NewAnthropicService (cfg_Anthropic cfg)) st (Logger ''proxy: '' [LstdFlags, Lshortfile])
           (NewModelRouter cfg
              [''anthropic'' \<mapsto> NewAnthropicProvider (cfg_Providers_Anthropic cfg),
               ''openai'' \<mapsto> NewOpenAIProvider (cfg_Providers_OpenAI cfg)]
              (Logger ''proxy: '' [LstdFlags, Lshortfile]))"
    by blast
  then show ?thesis by (simp add: handler_New_def)
qed

theorem legacy_service_beside_router_witness:
  "h_anthropicService (mux_handler (srv_router (the (server (main_unnamed env_ok)))))
     = NewAnthropicService ''https://api.anthropic.com''"
proof -
  have s: "server (main_unnamed env_ok) = Some (the (server (main_unnamed env_ok)))"
    using server_env_ok(2) by simp
  from legacy_service_beside_router [of main_unnamed env_ok, OF _ s]
  show ?thesis by (auto simp: env_ok_def cfg0_def)
qed

text \<open>
  The claim as stated fails on the run \<open>env_ok\<close>: the handler of the server built by main.go
  holds the legacy Anthropic service next to a model router that knows the Anthropic provider.
\<close>

theorem legacy_service_counterexample:
  "h_anthropicService (mux_handler (srv_router (the (server (main_proxy env_ok)))))
     = NewAnthropicService ''https://api.anthropic.com''
   \<and> mr_providers (h_modelRouter (mux_handler (srv_router (the (server (main_proxy env_ok))))))
        ''anthropic'' = Some (NewAnthropicProvider ''anthropic-provider'')"
  by (simp add: main_proxy_def env_ok_def cfg0_def fatal_def Let_def handler_New_def
        NewModelRouter_def)

text \<open>
  Claim C8. Whenever the configuration, the storage and the embedded file system are
  obtained, each of the two entry points builds a server, and the handler functions
  registered on it are exactly the nine (method, path) pairs of the HTTP surface: POST on
  /v1/messages and /v1/chat/completions, GET on /v1/models and /health, GET and DELETE on
  /api/requests, GET on /api/conversations, /api/conversations/{id} and
  /api/conversations/project, each bound to its handler function. The only route besides
  them is the prefix /assets/ of the static file server.
\<close>

theorem registered_http_surface:
  assumes "config_Load e = Inr cfg" and "NewSQLiteStorageService e (cfg_Storage cfg) = Inr st"
    and "fs_Sub e = Inr distFS"
  shows "\<forall>m. m = main_proxy \<or> m = main_unnamed \<longrightarrow>
     server (m e) \<noteq> None
     \<and> set (http_surface (the (server (m e)))) =
           {(''POST'', ''/v1/messages'', Messages),
            (''POST'', ''/v1/chat/completions'', ChatCompletions),
            (''GET'', ''/v1/models'', Models),
            (''GET'', ''/health'', Health),
            (''GET'', ''/api/requests'', GetRequests),
            (''DELETE'', ''/api/requests'', DeleteRequests),
            (''GET'', ''/api/conversations'', GetConversations),
            (''GET'', ''/api/conversations/{id}'', GetConversationByID),
            (''GET'', ''/api/conversations/project'', GetConversationsByProject)}
     \<and> length (http_surface (the (server (m e)))) = 9
     \<and> filter (\<lambda>r. route_surface r = []) (mux_routes (srv_router (the (server (m e)))))
         = [PathPrefix_fileServer ''/assets/'']"
proof (intro allI impI)
  fix m :: "('a, 'b, 'c, 'd, 'e) env \<Rightarrow> ('a, 'b, 'c, 'd, 'e) run"
  assume m: "m = main_proxy \<or> m = main_unnamed"
  have ex: "server (m e) \<noteq> None"
    using m main_builds_server [OF assms] by auto
  then have "server (m e) = Some (the (server (m e)))" by simp
  from main_server_fs(1) [OF m assms(3) this]
  have "mux_routes (srv_router (the (server (m e))))
      = api_routes @ [PathPrefix_fileServer ''/assets/'']" .
  then show "server (m e) \<noteq> None
     \<and> set (http_surface (the (server (m e)))) =
           {(''POST'', ''/v1/messages'', Messages),
            (''POST'', ''/v1/chat/completions'', ChatCompletions),
            (''GET'', ''/v1/models'', Models),
            (''GET'', ''/health'', Health),
            (''GET'', ''/api/requests'', GetRequests),
            (''DELETE'', ''/api/requests'', DeleteRequests),
            (''GET'', ''/api/conversations'', GetConversations),
            (''GET'', ''/api/conversations/{id}'', GetConversationByID),
            (''GET'', ''/api/conversations/project'', GetConversationsByProject)}
     \<and> length (http_surface (the (server (m e)))) = 9
     \<and> filter (\<lambda>r. route_surface r = []) (mux_routes (srv_router (the (server (m e)))))
         = [PathPrefix_fileServer ''/assets/'']"
    using ex by (simp add: http_surface_def api_routes_def insert_commute)
qed

theorem registered_http_surface_witness:
  "server (main_proxy env_ok) \<noteq> None \<and> server (main_unnamed env_ok) \<noteq> None
   \<and> set (http_surface (the (server (main_proxy env_ok)))) =
           {(''POST'', ''/v1/messages'', Messages),
            (''POST'', ''/v1/chat/completions'', ChatCompletions),
            (''GET'', ''/v1/models'', Models),
            (''GET'', ''/health'', Health),
            (''GET'', ''/api/requests'', GetRequests),
            (''DELETE'', ''/api/requests'', DeleteRequests),
            (''GET'', ''/api/conversations'', GetConversations),
            (''GET'', ''/api/conversations/{id}'', GetConversationByID),
            (''GET'', ''/api/conversations/project'', GetConversationsByProject)}
   \<and> set (http_surface (the (server (main_unnamed env_ok)))) =
           {(''POST'', ''/v1/messages'', Messages),
            (''POST'', ''/v1/chat/completions'', ChatCompletions),
            (''GET'', ''/v1/models'', Models),
            (''GET'', ''/health'', Health),
            (''GET'', ''/api/requests'', GetRequests),
            (''DELETE'', ''/api/requests'', DeleteRequests),
            (''GET'', ''/api/conversations'', GetConversations),
            (''GET'', ''/api/conversations/{id}'', GetConversationByID),
            (''GET'', ''/api/conversations/project'', GetConversationsByProject)}"
  using registered_http_surface [OF env_ok_calls, THEN spec, of main_proxy]
    registered_http_surface [OF env_ok_calls, THEN spec, of main_unnamed]
  by simp

subsection \<open>The log of the two entry points\<close>

text \<open>
  The loop over the proxy variables logs the heading once, before the first variable that is
  set, and one line for each variable that is set, in the order of \<open>proxyEnvVars\<close>.
\<close>

lemma detect_proxy_eq:
  "detect_proxy g vs d =
     ((if \<not> d \<and> \<not> list_all (\<lambda>v. g v = []) vs
       then [(122, Println ''HTTP/HTTPS proxy detected! All outbound API requests will be routed through:'')]
       else [])
      @ map (\<lambda>v. (125, Printf ''   %s=%s'' [v, g v])) (filter (\<lambda>v. g v \<noteq> []) vs),
      d \<or> \<not> list_all (\<lambda>v. g v = []) vs)"
proof (induction vs arbitrary: d)
  case Nil
  show ?case by simp
next
  case (Cons v vs)
  show ?case
  proof (cases "g v = []")
    case True
    then show ?thesis using Cons.IH [of d] by simp
  next
    case False
    then show ?thesis using Cons.IH [of True] by (simp add: Let_def)
  qed
qed

lemma proxy_messages_eq:
  "proxy_messages g =
     (if list_all (\<lambda>v. g v = []) proxyEnvVars then no_proxy_messages
      else (122, Println ''HTTP/HTTPS proxy detected! All outbound API requests will be routed through:'')
           # map (\<lambda>v. (125, Printf ''   %s=%s'' [v, g v])) (filter (\<lambda>v. g v \<noteq> []) proxyEnvVars))"
  by (auto simp: proxy_messages_def detect_proxy_eq list_all_iff filter_empty_conv)

text \<open>
  Claim C9 (as amended). The two entry points build the same server (providers, router,
  storage, handler, routes, CORS options, timeouts), end the same way and give
  \<open>srv.Shutdown\<close> the same 30 seconds. Their log output differs in three ways. After the
  first line main.go logs the proxy-detection messages: the five lines of lines 129 to 133
  when no proxy variable is set, else the heading and one line for each variable that is
  set. After the eight banner lines main.go logs the five usage-hint lines. And since the
  logger writes the source line of each call, every line logged after line 115 carries
  another line tag in the two files: the banner stands 20 lines further down in main.go,
  all later lines, those of the shutdown among them, 25 lines further down.
\<close>

theorem entry_points_differ_in_log_only:
  "server (main_proxy e) = server (main_unnamed e)
   \<and> outcome (main_proxy e) = outcome (main_unnamed e)
   \<and> shutdown_timeout (main_proxy e) = shutdown_timeout (main_unnamed e)
   \<and> log (main_proxy e) =
       (case server (main_unnamed e) of
          None \<Rightarrow> log (main_unnamed e)
        | Some srv \<Rightarrow>
            take 1 (log (main_unnamed e)) @ proxy_messages (Getenv e)
            @ map (relabel 20) (take 8 (drop 1 (log (main_unnamed e))))
            @ usage_hint (drop 1 (Addr srv))
            @ map (relabel 25) (drop 9 (log (main_unnamed e))))
   \<and> proxy_messages (Getenv e) =
       (if list_all (\<lambda>v. Getenv e v = []) proxyEnvVars then no_proxy_messages
        else (122, Println ''HTTP/HTTPS proxy detected! All outbound API requests will be routed through:'')
             # map (\<lambda>v. (125, Printf ''   %s=%s'' [v, Getenv e v]))
                 (filter (\<lambda>v. Getenv e v \<noteq> []) proxyEnvVars))"
proof -
  have "server (main_proxy e) = server (main_unnamed e)
   \<and> outcome (main_proxy e) = outcome (main_unnamed e)
   \<and> shutdown_timeout (main_proxy e) = shutdown_timeout (main_unnamed e)
   \<and> log (main_proxy e) =
       (case server (main_unnamed e) of
          None \<Rightarrow> log (main_unnamed e)
        | Some srv \<Rightarrow>
            take 1 (log (main_unnamed e)) @ proxy_messages (Getenv e)
            @ map (relabel 20) (take 8 (drop 1 (log (main_unnamed e))))
            @ usage_hint (drop 1 (Addr srv))
            @ map (relabel 25) (drop 9 (log (main_unnamed e))))"
    by (simp add: main_proxy_def main_unnamed_def fatal_def Let_def banner_def relabel_def
           split: sum.splits option.splits)
  then show ?thesis using proxy_messages_eq [of "Getenv e"] by simp
qed

theorem entry_points_differ_in_log_only_witness:
  "server (main_proxy env_behind_proxy) = server (main_unnamed env_behind_proxy)
   \<and> proxy_messages (Getenv env_behind_proxy) =
       [(122, Println ''HTTP/HTTPS proxy detected! All outbound API requests will be routed through:''),
        (125, Printf ''   %s=%s'' [''HTTPS_PROXY'', ''http://10.0.0.1:3128'']),
        (125, Printf ''   %s=%s'' [''NO_PROXY'', ''localhost''])]
   \<and> proxy_messages (Getenv env_ok) = no_proxy_messages"
  using entry_points_differ_in_log_only [of env_behind_proxy, THEN conjunct1]
    entry_points_differ_in_log_only [of env_behind_proxy, THEN conjunct2, THEN conjunct2,
      THEN conjunct2, THEN conjunct2]
    entry_points_differ_in_log_only [of env_ok, THEN conjunct2, THEN conjunct2,
      THEN conjunct2, THEN conjunct2]
  by (simp add: env_behind_proxy_def env_ok_def proxyEnvVars_def)

text \<open>
  The claim as stated names the proxy-detection messages in the start-up output as the whole
  difference. On the run \<open>env_ok\<close> main.go logs a usage-hint line that the other entry point
  does not log and that is no proxy-detection message; and the line that announces the
  shutdown is tagged with line 160 by main.go and with line 135 by the other entry point.
\<close>

theorem entry_points_log_counterexample:
  "(146, Println ''To use with Claude Code, run:'') \<in> set (log (main_proxy env_ok))
   \<and> Println ''To use with Claude Code, run:'' \<notin> snd ` set (log (main_unnamed env_ok))
   \<and> (146, Println ''To use with Claude Code, run:'') \<notin> set (proxy_messages (Getenv env_ok))
   \<and> (160, Println ''Shutting down server...'') \<in> set (log (main_proxy env_ok))
   \<and> (160, Println ''Shutting down server...'') \<notin> set (log (main_unnamed env_ok))
   \<and> (135, Println ''Shutting down server...'') \<in> set (log (main_unnamed env_ok))"
  by (simp add: main_proxy_def main_unnamed_def env_ok_def cfg0_def fatal_def Let_def banner_def
        usage_hint_def proxy_messages_eq proxyEnvVars_def no_proxy_messages_def)

subsection \<open>The answer to a request\<close>

text \<open>
  When no route matches both path and method, the router answers 405 if some route matched
  the path (or an earlier one did), and goes to \<open>NotFoundHandler\<close> otherwise.
\<close>

lemma mux_match_no_route:
  "\<not> list_ex (\<lambda>r. route_matches_path r path \<and> route_matches_method r method) rs \<Longrightarrow>
   mux_match rs method path mismatch =
     (if mismatch \<or> list_ex (\<lambda>r. route_matches_path r path) rs then Method_mismatch
      else No_match)"
proof (induction rs arbitrary: mismatch)
  case Nil
  show ?case by simp
next
  case (Cons r rs)
  then show ?case by (cases r) (auto simp del: route_matches_path.simps(1))
qed

lemma not_found_handler_api:
  "HasPrefix path ''/api/'' \<or> HasPrefix path ''/v1/'' \<Longrightarrow> NotFoundHandler distFS path = NotFound"
  by (simp add: NotFoundHandler_def)

text \<open>
  Claim C10 (as amended). In the server built by either entry point, a request with a method
  other than OPTIONS and a clean path that matches the path of no registered route is
  answered by \<open>NotFoundHandler\<close>: with the API NotFound response when the path begins with
  /api/ or /v1/; otherwise it is handed to the static file server when the embedded file
  system opens the name after the leading slash (the file server redirects a path that ends
  in /index.html to ./ and serves the name otherwise), else index.html is written with
  Content-Type text/html, else the answer is the API NotFound response. No request under
  /api/ or /v1/ is answered with index.html. The other requests do not reach
  \<open>NotFoundHandler\<close>: an OPTIONS request is answered by the CORS handler, a path that is not
  clean is redirected to its clean form, and a request whose path matches a registered
  route while its method matches none gets the answer 405 of the router.
\<close>

theorem unmatched_requests:
  assumes "config_Load e = Inr cfg" and "NewSQLiteStorageService e (cfg_Storage cfg) = Inr st"
    and "fs_Sub e = Inr distFS"
  shows "\<forall>m. m = main_proxy \<or> m = main_unnamed \<longrightarrow>
     server (m e) \<noteq> None \<and>
     (\<forall>method path.
        let srv = the (server (m e));
            routes = mux_routes (srv_router srv);
            api = (HasPrefix path ''/api/'' \<or> HasPrefix path ''/v1/'');
            reaches_router = (method \<noteq> ''OPTIONS'' \<and> cleanPath path = path);
            path_known = list_ex (\<lambda>r. route_matches_path r path) routes;
            route_found = list_ex (\<lambda>r. route_matches_path r path \<and> route_matches_method r method) routes
        in (reaches_router \<and> \<not> path_known \<longrightarrow>
              ServeHTTP srv method path = NotFoundHandler_called
                (if api then NotFound
                 else if fs_Open distFS (TrimPrefix path ''/'') then fileServer_ServeHTTP path
                 else (case fs_ReadFile distFS ''index.html'' of
                         Some indexHTML \<Rightarrow> Write [(''Content-Type'', ''text/html'')] indexHTML
                       | None \<Rightarrow> NotFound)))
         \<and> (api \<longrightarrow> (\<forall>hdrs body. ServeHTTP srv method path \<noteq> NotFoundHandler_called (Write hdrs body)
                              \<and> ServeHTTP srv method path \<noteq> FileServer_called (Write hdrs body)))
         \<and> (reaches_router \<and> path_known \<and> \<not> route_found \<longrightarrow>
              ServeHTTP srv method path = MethodNotAllowed)
         \<and> (method = ''OPTIONS'' \<longrightarrow> ServeHTTP srv method path = CORS_answers_OPTIONS)
         \<and> (method \<noteq> ''OPTIONS'' \<and> cleanPath path \<noteq> path \<longrightarrow>
              ServeHTTP srv method path = Redirect_to_clean_path (cleanPath path)))"
proof (intro allI impI)
  fix m :: "('a, 'b, 'c, 'd, 'e) env \<Rightarrow> ('a, 'b, 'c, 'd, 'e) run"
  assume m: "m = main_proxy \<or> m = main_unnamed"
  define srv where "srv = the (server (m e))"
  have ex: "server (m e) \<noteq> None"
    using m main_builds_server [OF assms] by auto
  then have s: "server (m e) = Some srv" by (simp add: srv_def)
  note nf = main_server_fs(2) [OF m assms(3) s]
  have all: "let routes = mux_routes (srv_router srv);
            api = (HasPrefix path ''/api/'' \<or> HasPrefix path ''/v1/'');
            reaches_router = (meth \<noteq> ''OPTIONS'' \<and> cleanPath path = path);
            path_known = list_ex (\<lambda>r. route_matches_path r path) routes;
            route_found = list_ex (\<lambda>r. route_matches_path r path \<and> route_matches_method r meth) routes
        in (reaches_router \<and> \<not> path_known \<longrightarrow>
              ServeHTTP srv meth path = NotFoundHandler_called
                (if api then NotFound
                 else if fs_Open distFS (TrimPrefix path ''/'') then fileServer_ServeHTTP path
                 else (case fs_ReadFile distFS ''index.html'' of
                         Some indexHTML \<Rightarrow> Write [(''Content-Type'', ''text/html'')] indexHTML
                       | None \<Rightarrow> NotFound)))
         \<and> (api \<longrightarrow> (\<forall>hdrs body. ServeHTTP srv meth path \<noteq> NotFoundHandler_called (Write hdrs body)
                              \<and> ServeHTTP srv meth path \<noteq> FileServer_called (Write hdrs body)))
         \<and> (reaches_router \<and> path_known \<and> \<not> route_found \<longrightarrow>
              ServeHTTP srv meth path = MethodNotAllowed)
         \<and> (meth = ''OPTIONS'' \<longrightarrow> ServeHTTP srv meth path = CORS_answers_OPTIONS)
         \<and> (meth \<noteq> ''OPTIONS'' \<and> cleanPath path \<noteq> path \<longrightarrow>
              ServeHTTP srv meth path = Redirect_to_clean_path (cleanPath path))"
    for meth path
  proof -
    let ?routes = "mux_routes (srv_router srv)"
    have a: "ServeHTTP srv meth path = NotFoundHandler_called (NotFoundHandler distFS path)"
      if "meth \<noteq> ''OPTIONS''" "cleanPath path = path"
        "\<not> list_ex (\<lambda>r. route_matches_path r path) ?routes"
    proof -
      from that(3)
      have "\<not> list_ex (\<lambda>r. route_matches_path r path \<and> route_matches_method r meth) ?routes"
        by (auto simp: list_ex_iff)
      from mux_match_no_route [OF this, of False] that(3)
      have "mux_match ?routes meth path False = No_match" by simp
      then show ?thesis using that(1,2) nf by (simp add: ServeHTTP_def)
    qed
    have b: "ServeHTTP srv meth path = MethodNotAllowed"
      if "meth \<noteq> ''OPTIONS''" "cleanPath path = path"
        "list_ex (\<lambda>r. route_matches_path r path) ?routes"
        "\<not> list_ex (\<lambda>r. route_matches_path r path \<and> route_matches_method r meth) ?routes"
    proof -
      from mux_match_no_route [OF that(4), of False] that(3)
      have "mux_match ?routes meth path False = Method_mismatch" by simp
      then show ?thesis using that(1,2) by (simp add: ServeHTTP_def)
    qed
    have c: "ServeHTTP srv meth path \<noteq> NotFoundHandler_called (Write hdrs body)
          \<and> ServeHTTP srv meth path \<noteq> FileServer_called (Write hdrs body)"
      if "HasPrefix path ''/api/'' \<or> HasPrefix path ''/v1/''" for hdrs body
      using not_found_handler_api [OF that, of distFS] nf
      by (auto simp: ServeHTTP_def fileServer_ServeHTTP_def split: target.splits if_splits)
    show ?thesis
      unfolding Let_def
      using a b c
      by (auto simp: NotFoundHandler_def ServeHTTP_def)
  qed
  show "server (m e) \<noteq> None \<and>
     (\<forall>method path.
        let srv = the (server (m e));
            routes = mux_routes (srv_router srv);
            api = (HasPrefix path ''/api/'' \<or> HasPrefix path ''/v1/'');
            reaches_router = (method \<noteq> ''OPTIONS'' \<and> cleanPath path = path);
            path_known = list_ex (\<lambda>r. route_matches_path r path) routes;
            route_found = list_ex (\<lambda>r. route_matches_path r path \<and> route_matches_method r method) routes
        in (reaches_router \<and> \<not> path_known \<longrightarrow>
              ServeHTTP srv method path = NotFoundHandler_called
                (if api then NotFound
                 else if fs_Open distFS (TrimPrefix path ''/'') then fileServer_ServeHTTP path
                 else (case fs_ReadFile distFS ''index.html'' of
                         Some indexHTML \<Rightarrow> Write [(''Content-Type'', ''text/html'')] indexHTML
                       | None \<Rightarrow> NotFound)))
         \<and> (api \<longrightarrow> (\<forall>hdrs body. ServeHTTP srv method path \<noteq> NotFoundHandler_called (Write hdrs body)
                              \<and> ServeHTTP srv method path \<noteq> FileServer_called (Write hdrs body)))
         \<and> (reaches_router \<and> path_known \<and> \<not> route_found \<longrightarrow>
              ServeHTTP srv method path = MethodNotAllowed)
         \<and> (method = ''OPTIONS'' \<longrightarrow> ServeHTTP srv method path = CORS_answers_OPTIONS)
         \<and> (method \<noteq> ''OPTIONS'' \<and> cleanPath path \<noteq> path \<longrightarrow>
              ServeHTTP srv method path = Redirect_to_clean_path (cleanPath path)))"
    using ex all unfolding srv_def Let_def by blast
qed

text \<open>The server of the run \<open>env_ok\<close>, and paths that are clean.\<close>

lemma router_env_ok:
  "mux_routes (srv_router (the (server (main_proxy env_ok))))
     = api_routes @ [PathPrefix_fileServer ''/assets/'']"
  "mux_routes (srv_router (the (server (main_unnamed env_ok))))
     = api_routes @ [PathPrefix_fileServer ''/assets/'']"
  "mux_NotFoundHandler (srv_router (the (server (main_proxy env_ok)))) = NotFoundHandler distFS0"
  "mux_NotFoundHandler (srv_router (the (server (main_unnamed env_ok)))) = NotFoundHandler distFS0"
  using main_server_fs [of main_proxy env_ok distFS0 "the (server (main_proxy env_ok))"]
    main_server_fs [of main_unnamed env_ok distFS0 "the (server (main_unnamed env_ok))"]
    server_env_ok env_ok_calls(3)
  by simp_all

lemma clean_paths:
  "cleanPath ''/v1/messages'' = ''/v1/messages''"
  "cleanPath ''/api//unknown'' = ''/api/unknown''"
  "cleanPath ''/index.html'' = ''/index.html''"
  "cleanPath ''/api/unknown'' = ''/api/unknown''"
  "cleanPath ''/v1/unknown'' = ''/v1/unknown''"
  "cleanPath ''/favicon.ico'' = ''/favicon.ico''"
  "cleanPath ''/requests/42'' = ''/requests/42''"
  "cleanPath ''/api/requests'' = ''/api/requests''"
  "cleanPath ''/api/conversations/project'' = ''/api/conversations/project''"
  by code_simp+

lemmas serve_simps = ServeHTTP_def router_env_ok api_routes_def clean_paths is_variable_def
  HasPrefix_def HasSuffix_def TrimPrefix_def NotFoundHandler_def fileServer_ServeHTTP_def
  distFS0_def

theorem unmatched_requests_witness:
  "ServeHTTP (the (server (main_proxy env_ok))) ''GET'' ''/api/unknown''
     = NotFoundHandler_called NotFound
   \<and> ServeHTTP (the (server (main_unnamed env_ok))) ''DELETE'' ''/v1/unknown''
     = NotFoundHandler_called NotFound
   \<and> ServeHTTP (the (server (main_proxy env_ok))) ''GET'' ''/favicon.ico''
     = NotFoundHandler_called (ServeFile ''/favicon.ico'')
   \<and> ServeHTTP (the (server (main_unnamed env_ok))) ''GET'' ''/requests/42''
     = NotFoundHandler_called (Write [(''Content-Type'', ''text/html'')] ''<html></html>'')
   \<and> ServeHTTP (the (server (main_unnamed env_ok))) ''PUT'' ''/api/requests'' = MethodNotAllowed"
proof -
  note T = unmatched_requests [OF env_ok_calls]
  have P: "m = main_proxy \<or> m = main_unnamed \<Longrightarrow>
      (let srv = the (server (m env_ok));
            routes = mux_routes (srv_router srv);
            api = (HasPrefix path ''/api/'' \<or> HasPrefix path ''/v1/'');
            reaches_router = (meth \<noteq> ''OPTIONS'' \<and> cleanPath path = path);
            path_known = list_ex (\<lambda>r. route_matches_path r path) routes;
            route_found = list_ex (\<lambda>r. route_matches_path r path \<and> route_matches_method r meth) routes
        in (reaches_router \<and> \<not> path_known \<longrightarrow>
              ServeHTTP srv meth path = NotFoundHandler_called
                (if api then NotFound
                 else if fs_Open distFS0 (TrimPrefix path ''/'') then fileServer_ServeHTTP path
                 else (case fs_ReadFile distFS0 ''index.html'' of
                         Some indexHTML \<Rightarrow> Write [(''Content-Type'', ''text/html'')] indexHTML
                       | None \<Rightarrow> NotFound)))
         \<and> (reaches_router \<and> path_known \<and> \<not> route_found \<longrightarrow>
              ServeHTTP srv meth path = MethodNotAllowed))" for m meth path
    using T [THEN spec, of m] by (simp add: Let_def)
  from P [of main_proxy "''/api/unknown''" "''GET''"]
  have 1: "ServeHTTP (the (server (main_proxy env_ok))) ''GET'' ''/api/unknown''
     = NotFoundHandler_called NotFound"
    by (simp add: Let_def router_env_ok api_routes_def clean_paths is_variable_def HasPrefix_def)
  from P [of main_unnamed "''/v1/unknown''" "''DELETE''"]
  have 2: "ServeHTTP (the (server (main_unnamed env_ok))) ''DELETE'' ''/v1/unknown''
     = NotFoundHandler_called NotFound"
    by (simp add: Let_def router_env_ok api_routes_def clean_paths is_variable_def HasPrefix_def)
  from P [of main_proxy "''/favicon.ico''" "''GET''"]
  have 3: "ServeHTTP (the (server (main_proxy env_ok))) ''GET'' ''/favicon.ico''
     = NotFoundHandler_called (ServeFile ''/favicon.ico'')"
    by (simp add: Let_def router_env_ok api_routes_def clean_paths is_variable_def HasPrefix_def
          HasSuffix_def TrimPrefix_def fileServer_ServeHTTP_def distFS0_def)
  from P [of main_unnamed "''/requests/42''" "''GET''"]
  have 4: "ServeHTTP (the (server (main_unnamed env_ok))) ''GET'' ''/requests/42''
     = NotFoundHandler_called (Write [(''Content-Type'', ''text/html'')] ''<html></html>'')"
    by (simp add: Let_def router_env_ok api_routes_def clean_paths is_variable_def HasPrefix_def
          HasSuffix_def TrimPrefix_def fileServer_ServeHTTP_def distFS0_def)
  from P [of main_unnamed "''/api/requests''" "''PUT''"]
  have 5: "ServeHTTP (the (server (main_unnamed env_ok))) ''PUT'' ''/api/requests'' = MethodNotAllowed"
    by (simp add: Let_def router_env_ok api_routes_def clean_paths is_variable_def HasPrefix_def)
  from 1 2 3 4 5 show ?thesis by simp
qed

text \<open>
  The claim as stated fails on the run \<open>env_ok\<close>, for both entry points. GET /v1/messages
  lies under /v1/ and matches no registered route (the route is registered for POST), and the
  answer is the 405 of the router, not the API NotFound response; the same holds of an
  OPTIONS request, which the CORS handler answers, and of a path that is not clean, which is
  redirected. And /index.html names a file of the embedded file system, but the file server
  redirects the request and does not serve the file.
\<close>

theorem unmatched_requests_counterexample:
  "ServeHTTP (the (server (main_proxy env_ok))) ''GET'' ''/v1/messages'' = MethodNotAllowed
   \<and> ServeHTTP (the (server (main_unnamed env_ok))) ''GET'' ''/v1/messages'' = MethodNotAllowed
   \<and> ServeHTTP (the (server (main_proxy env_ok))) ''OPTIONS'' ''/api/unknown''
       = CORS_answers_OPTIONS
   \<and> ServeHTTP (the (server (main_proxy env_ok))) ''GET'' ''/api//unknown''
       = Redirect_to_clean_path ''/api/unknown''
   \<and> fs_Open distFS0 ''index.html''
   \<and> ServeHTTP (the (server (main_proxy env_ok))) ''GET'' ''/index.html''
       = NotFoundHandler_called (LocalRedirect ''./'')"
  by (simp add: serve_simps)

text \<open>
  The route for /api/conversations/{id} is registered before the route for
  /api/conversations/project and matches that path as well, so the router never reaches
  \<open>GetConversationsByProject\<close>.
\<close>

lemma project_route_is_shadowed:
  "ServeHTTP (the (server (main_proxy env_ok))) ''GET'' ''/api/conversations/project''
     = Handler_called GetConversationByID"
  by (simp add: serve_simps)

section \<open>Properties of the Model Router\<close>

subsection \<open>Route\<close>

lemma lookup_model_map_of: "lookup_model tbl ident = map_of tbl ident"
  by (induction tbl) auto

text \<open>
  Claim C5. \<open>Route\<close> looks the inbound model identifier up in the mapping table: an
  identifier that is absent gives the default provider with the identifier unchanged as the
  upstream model name, and an identifier that the table maps to a pair gives that pair (the
  pair of its entry when the table has one entry for each identifier, the pair of its first
  entry in general).
\<close>

theorem route_lookup:
  "(req_model req \<notin> fst ` set (mapping_table rc)
      \<longrightarrow> Route rc req = (default_provider rc, req_model req))
   \<and> (\<forall>p u. distinct (map fst (mapping_table rc)) \<and> (req_model req, p, u) \<in> set (mapping_table rc)
      \<longrightarrow> Route rc req = (p, u))
   \<and> (\<forall>p u. map_of (mapping_table rc) (req_model req) = Some (p, u) \<longrightarrow> Route rc req = (p, u))"
proof (intro conjI allI impI)
  assume "req_model req \<notin> fst ` set (mapping_table rc)"
  then have "map_of (mapping_table rc) (req_model req) = None"
    by (simp add: map_of_eq_None_iff)
  then show "Route rc req = (default_provider rc, req_model req)"
    by (simp add: Route_def lookup_model_map_of)
next
  fix p u
  assume "distinct (map fst (mapping_table rc)) \<and> (req_model req, p, u) \<in> set (mapping_table rc)"
  then have "map_of (mapping_table rc) (req_model req) = Some (p, u)"
    by (simp add: map_of_is_SomeI)
  then show "Route rc req = (p, u)"
    by (simp add: Route_def lookup_model_map_of)
next
  fix p u
  assume "map_of (mapping_table rc) (req_model req) = Some (p, u)"
  then show "Route rc req = (p, u)"
    by (simp add: Route_def lookup_model_map_of)
qed

theorem route_lookup_witness:
  "Route routes0 (request_hi ''mistral'') = (''anthropic'', ''mistral'')
   \<and> Route routes0 (request_hi ''gpt-4o'') = (''openai'', ''gpt-4o-2024-08-06'')"
  using route_lookup [of "request_hi ''mistral''" routes0]
    route_lookup [of "request_hi ''gpt-4o''" routes0, THEN conjunct2, THEN conjunct1,
      rule_format, of "''openai''" "''gpt-4o-2024-08-06''"]
  by (simp add: routes0_def request_hi_def)

subsection \<open>Execute\<close>

text \<open>
  Against the script that fails \<open>K\<close> times, the loop either reaches the successful call within
  its budget or spends the whole budget on failures.
\<close>

lemma attempt_loop_stub:
  "calls \<le> K \<Longrightarrow>
   attempt_loop n calls (fails_then_succeeds K r) latest =
     (if K - calls < n then (Inr r, Suc K)
      else (Inl (if n = 0 then latest else Provider (UpstreamStatus 500)), calls + n))"
proof (induction n arbitrary: calls latest)
  case 0
  then show ?case by simp
next
  case (Suc n)
  show ?case
  proof (cases "calls < K")
    case True
    then have le: "Suc calls \<le> K" by simp
    have step: "attempt_loop (Suc n) calls (fails_then_succeeds K r) latest =
        attempt_loop n (Suc calls) (fails_then_succeeds K r) (Provider (UpstreamStatus 500))"
      using True by (simp add: fails_then_succeeds_def)
    have "K - calls < Suc n \<longleftrightarrow> K - Suc calls < n" using True by arith
    then show ?thesis
      unfolding step Suc.IH [OF le] by simp
  next
    case False
    with Suc.prems have "calls = K" by simp
    then show ?thesis by (simp add: fails_then_succeeds_def)
  qed
qed

text \<open>
  When the calls before the \<open>i\<close>-th all fail with a retryable error and the \<open>i\<close>-th call, still
  within the budget, succeeds or fails with an error that is not retryable, the loop ends
  with that call.
\<close>

lemma attempt_loop_final:
  assumes "\<forall>j<i. \<exists>err. send (calls + j) = Inl err \<and> retryable err"
    and "i < n"
    and "\<forall>err. send (calls + i) = Inl err \<longrightarrow> \<not> retryable err"
  shows "attempt_loop n calls send latest =
           (case send (calls + i) of Inr r \<Rightarrow> Inr r | Inl err \<Rightarrow> Inl (Provider err),
            calls + i + 1)"
  using assms
proof (induction i arbitrary: n calls latest)
  case 0
  then obtain n' where n: "n = Suc n'" by (cases n) auto
  from "0.prems"(3) show ?case
    unfolding n by (cases "send calls") auto
next
  case (Suc i)
  then obtain n' where n: "n = Suc n'" by (cases n) auto
  from Suc.prems(1) [rule_format, of 0] obtain err
    where e: "send calls = Inl err" "retryable err" by auto
  have a: "\<forall>j<i. \<exists>err. send (Suc calls + j) = Inl err \<and> retryable err"
  proof (intro allI impI)
    fix j assume "j < i"
    then have "Suc j < Suc i" by simp
    from Suc.prems(1) [rule_format, OF this] show "\<exists>err. send (Suc calls + j) = Inl err \<and> retryable err"
      by simp
  qed
  have b: "i < n'" using Suc.prems(2) n by simp
  have c: "\<forall>err. send (Suc calls + i) = Inl err \<longrightarrow> \<not> retryable err"
    using Suc.prems(3) by simp
  have "attempt_loop n calls send latest = attempt_loop n' (Suc calls) send (Provider err)"
    unfolding n using e by simp
  also note Suc.IH [OF a b c]
  finally show ?case by simp
qed

text \<open>What \<open>Execute\<close> returns against the stub that fails \<open>K\<close> times and then succeeds.\<close>

lemma execute_stub:
  "Execute N (Provider_stub (fails_then_succeeds K r)) req =
     (if K < N then (Inr r, K + 1)
      else (Inl (if N = 0 then NoAttempt else Provider (UpstreamStatus 500)), N))"
  using attempt_loop_stub [of 0 K N r NoAttempt]
  by (simp add: Execute_def Provider_stub_def)



text \<open>
  When \<open>K\<close> is not below the budget, the stub's success is never reached: "up to N attempts"
  ends the run after \<open>N\<close> calls.
\<close>

lemma retry_budget_spent:
  "\<not> K < N \<Longrightarrow> snd (Execute N (Provider_stub (fails_then_succeeds K r)) req) = N"
  by (simp add: execute_stub)

text \<open>
  Claim C3. \<open>Execute\<close> performs no retry after an upstream call that returns a 4xx status
  other than 429, nor after a TranslationError, and the error propagates to the caller. A
  stub that answers with such a status gets exactly one upstream call; in general, when the
  calls before the \<open>i\<close>-th were retried and the \<open>i\<close>-th returns such a status, or succeeds
  with a response that translation-out rejects, the run ends with that call; a request that
  translation-in rejects ends the run before any call.
\<close>

theorem no_retry_on_client_error:
  assumes "400 \<le> s" and "s < 500" and "s \<noteq> 429"
  shows "(0 < N \<longrightarrow> Execute N (Provider_stub (always_status s)) req
                      = (Inl (Provider (UpstreamStatus s)), 1))
       \<and> (build_request p req = Inr w \<and> i < N
            \<and> (\<forall>j<i. \<exists>err. upstream_call p j w = Inl err \<and> retryable err)
            \<and> upstream_call p i w = Inl (UpstreamStatus s)
          \<longrightarrow> Execute N p req = (Inl (Provider (UpstreamStatus s)), i + 1))
       \<and> (build_request p req = Inl terr \<longrightarrow> Execute N p req = (Inl (Translation terr), 0))
       \<and> (build_request p req = Inr w \<and> i < N
            \<and> (\<forall>j<i. \<exists>err. upstream_call p j w = Inl err \<and> retryable err)
            \<and> upstream_call p i w = Inr v \<and> parse_response p v = Inl terr
          \<longrightarrow> Execute N p req = (Inl (Translation terr), i + 1))"
proof (intro conjI impI)
  assume "0 < N"
  have "\<forall>err. always_status s (0 + 0) = Inl err \<longrightarrow> \<not> retryable err"
    using assms by (auto simp: always_status_def)
  from attempt_loop_final [of 0 "always_status s" 0 N NoAttempt, OF _ \<open>0 < N\<close> this]
  have "attempt_loop N 0 (always_status s) NoAttempt = (Inl (Provider (UpstreamStatus s)), 1)"
    by (simp add: always_status_def)
  then show "Execute N (Provider_stub (always_status s)) req
      = (Inl (Provider (UpstreamStatus s)), 1)"
    by (simp add: Execute_def Provider_stub_def)
next
  assume a: "build_request p req = Inr w \<and> i < N
      \<and> (\<forall>j<i. \<exists>err. upstream_call p j w = Inl err \<and> retryable err)
      \<and> upstream_call p i w = Inl (UpstreamStatus s)"
  then have "\<forall>err. upstream_call p (0 + i) w = Inl err \<longrightarrow> \<not> retryable err"
    using assms by auto
  from attempt_loop_final [of i "\<lambda>i. upstream_call p i w" 0 N NoAttempt, OF _ _ this] a
  have "attempt_loop N 0 (\<lambda>i. upstream_call p i w) NoAttempt
      = (Inl (Provider (UpstreamStatus s)), i + 1)"
    by simp
  then show "Execute N p req = (Inl (Provider (UpstreamStatus s)), i + 1)"
    using a by (simp add: Execute_def)
next
  assume "build_request p req = Inl terr"
  then show "Execute N p req = (Inl (Translation terr), 0)"
    by (simp add: Execute_def)
next
  assume a: "build_request p req = Inr w \<and> i < N
      \<and> (\<forall>j<i. \<exists>err. upstream_call p j w = Inl err \<and> retryable err)
      \<and> upstream_call p i w = Inr v \<and> parse_response p v = Inl terr"
  then have "\<forall>err. upstream_call p (0 + i) w = Inl err \<longrightarrow> \<not> retryable err" by auto
  from attempt_loop_final [of i "\<lambda>i. upstream_call p i w" 0 N NoAttempt, OF _ _ this] a
  have "attempt_loop N 0 (\<lambda>i. upstream_call p i w) NoAttempt = (Inr v, i + 1)"
    by simp
  then show "Execute N p req = (Inl (Translation terr), i + 1)"
    using a by (simp add: Execute_def)
qed

text \<open>A tool result inside a user message cannot be encoded in the OpenAI format.\<close>

lemma request_tool_result_rejected:
  "fromCanonical OpenAI request_tool_result
     = Inl (TranslationError ''content block absent in the OpenAI format'')"
  by (simp add: request_tool_result_def openai_out_def openai_message_out_def)

theorem no_retry_on_client_error_witness:
  "Execute ANTHROPIC_MAX_RETRIES (Provider_stub (always_status 400)) (request_hi ''gpt-4o'')
     = (Inl (Provider (UpstreamStatus 400)), 1)
   \<and> Execute ANTHROPIC_MAX_RETRIES (Provider_stub unavailable_then_missing) (request_hi ''gpt-4o'')
     = (Inl (Provider (UpstreamStatus 404)), 2)
   \<and> Execute ANTHROPIC_MAX_RETRIES (openai_provider (fails_then_succeeds 0 response_ok))
        request_tool_result
     = (Inl (Translation (TranslationError ''content block absent in the OpenAI format'')), 0)
   \<and> Execute ANTHROPIC_MAX_RETRIES (strict_stub (fails_then_succeeds 1 response_tool_result))
        (request_hi ''gpt-4o'')
     = (Inl (Translation (TranslationError ''content block absent in the target format'')), 2)"
proof -
  have s400: "(400::nat) \<le> 400" "(400::nat) < 500" "(400::nat) \<noteq> 429" by simp_all
  have s404: "(400::nat) \<le> 404" "(404::nat) < 500" "(404::nat) \<noteq> 429" by simp_all
  have 1: "Execute ANTHROPIC_MAX_RETRIES (Provider_stub (always_status 400)) (request_hi ''gpt-4o'')
     = (Inl (Provider (UpstreamStatus 400)), 1)"
    using no_retry_on_client_error [OF s400, where N = ANTHROPIC_MAX_RETRIES
        and req = "request_hi ''gpt-4o''", THEN conjunct1]
    by (simp add: ANTHROPIC_MAX_RETRIES_def)
  have 2: "Execute ANTHROPIC_MAX_RETRIES (Provider_stub unavailable_then_missing)
        (request_hi ''gpt-4o'') = (Inl (Provider (UpstreamStatus 404)), 2)"
    using no_retry_on_client_error [OF s404, where p = "Provider_stub unavailable_then_missing"
        and req = "request_hi ''gpt-4o''" and w = "request_hi ''gpt-4o''" and i = 1
        and N = ANTHROPIC_MAX_RETRIES, THEN conjunct2, THEN conjunct1]
    by (simp add: ANTHROPIC_MAX_RETRIES_def Provider_stub_def unavailable_then_missing_def)
  have 3: "Execute ANTHROPIC_MAX_RETRIES (openai_provider (fails_then_succeeds 0 response_ok))
        request_tool_result
     = (Inl (Translation (TranslationError ''content block absent in the OpenAI format'')), 0)"
    using no_retry_on_client_error [OF s400,
        where p = "openai_provider (fails_then_succeeds 0 response_ok)"
        and req = request_tool_result and N = ANTHROPIC_MAX_RETRIES
        and terr = "TranslationError ''content block absent in the OpenAI format''",
        THEN conjunct2, THEN conjunct2, THEN conjunct1]
      request_tool_result_rejected
    by (simp add: openai_provider_def)
  have 4: "Execute ANTHROPIC_MAX_RETRIES (strict_stub (fails_then_succeeds 1 response_tool_result))
        (request_hi ''gpt-4o'')
     = (Inl (Translation (TranslationError ''content block absent in the target format'')), 2)"
    using no_retry_on_client_error [OF s400,
        where p = "strict_stub (fails_then_succeeds 1 response_tool_result)"
        and req = "request_hi ''gpt-4o''" and w = "request_hi ''gpt-4o''" and i = 1
        and N = ANTHROPIC_MAX_RETRIES
        and terr = "TranslationError ''content block absent in the target format''"
        and v = response_tool_result,
        THEN conjunct2, THEN conjunct2, THEN conjunct2]
    by (simp add: ANTHROPIC_MAX_RETRIES_def strict_stub_def fails_then_succeeds_def
          response_tool_result_def response_ok_def)
  from 1 2 3 4 show ?thesis by simp
qed

section \<open>Properties of the Format Translator\<close>

subsection \<open>Lists of translations\<close>

lemma traverse_inverse:
  assumes "\<And>x y. x \<in> set xs \<Longrightarrow> f x = Inr y \<Longrightarrow> g y = Inr x"
    and "traverse f xs = Inr ys"
  shows "traverse g ys = Inr xs"
  using assms
proof (induction xs arbitrary: ys)
  case Nil
  then show ?case by simp
next
  case (Cons x xs)
  from Cons.prems(2) obtain y ys' where y: "f x = Inr y" "traverse f xs = Inr ys'" "ys = y # ys'"
    by (auto split: sum.splits)
  have "g y = Inr x" using Cons.prems(1) y(1) by simp
  moreover have "traverse g ys' = Inr xs"
    using Cons.IH [OF _ y(2)] Cons.prems(1) by simp
  ultimately show ?case using y(3) by simp
qed

lemma traverse_singletons:
  assumes "\<And>x y. x \<in> set xs \<Longrightarrow> f x = Inr y \<Longrightarrow> g y = Inr [x]"
    and "traverse f xs = Inr ys"
  shows "traverse g ys = Inr (map (\<lambda>x. [x]) xs)"
  using assms
proof (induction xs arbitrary: ys)
  case Nil
  then show ?case by simp
next
  case (Cons x xs)
  from Cons.prems(2) obtain y ys' where y: "f x = Inr y" "traverse f xs = Inr ys'" "ys = y # ys'"
    by (auto split: sum.splits)
  have "g y = Inr [x]" using Cons.prems(1) y(1) by simp
  moreover have "traverse g ys' = Inr (map (\<lambda>x. [x]) xs)"
    using Cons.IH [OF _ y(2)] Cons.prems(1) by simp
  ultimately show ?case using y(3) by simp
qed

lemma traverse_total:
  assumes "\<And>x. x \<in> set xs \<Longrightarrow> \<exists>y. f x = Inr y"
  shows "\<exists>ys. traverse f xs = Inr ys"
  using assms
proof (induction xs)
  case Nil
  then show ?case by simp
next
  case (Cons x xs)
  from Cons.prems obtain y where "f x = Inr y" by auto
  moreover from Cons obtain ys where "traverse f xs = Inr ys" by auto
  ultimately show ?case by simp
qed

lemma traverse_results:
  assumes "traverse f xs = Inr ys" and "y \<in> set ys"
  shows "\<exists>x \<in> set xs. f x = Inr y"
  using assms
proof (induction xs arbitrary: ys)
  case Nil
  then show ?case by simp
next
  case (Cons x xs)
  from Cons.prems(1) obtain z ys' where z: "f x = Inr z" "traverse f xs = Inr ys'" "ys = z # ys'"
    by (auto split: sum.splits)
  show ?case
  proof (cases "y = z")
    case True
    then show ?thesis using z(1) by simp
  next
    case False
    then have "y \<in> set ys'" using Cons.prems(2) z(3) by simp
    from Cons.IH [OF z(2) this] show ?thesis by auto
  qed
qed

lemma traverse_Nil_iff:
  "traverse f xs = Inr ys \<Longrightarrow> ys = [] \<longleftrightarrow> xs = []"
  by (cases xs) (auto split: sum.splits)

subsection \<open>OpenAI blocks\<close>

lemma those_block_part:
  "those (map block_part bs) = Some ps \<Longrightarrow> map part_block ps = bs"
proof (induction bs arbitrary: ps)
  case Nil
  then show ?case by simp
next
  case (Cons b bs)
  then show ?case by (cases b) (auto split: option.splits)
qed

lemma those_block_call:
  "those (map block_call bs) = Some cs \<Longrightarrow> map call_block cs = bs"
proof (induction bs arbitrary: cs)
  case Nil
  then show ?case by simp
next
  case (Cons b bs)
  then show ?case by (cases b) (auto split: option.splits)
qed

lemma block_part_part_block: "those (map block_part (map part_block ps)) = Some ps"
proof (induction ps)
  case Nil
  then show ?case by simp
next
  case (Cons p ps)
  then show ?case by (cases p) simp_all
qed

lemma block_call_call_block: "those (map block_call (map call_block cs)) = Some cs"
proof (induction cs)
  case Nil
  then show ?case by simp
next
  case (Cons c cs)
  then show ?case by (cases c) simp
qed

lemma is_part_part_block: "is_part (part_block p)"
  by (cases p) simp_all

lemma not_is_part_call_block: "\<not> is_part (call_block c)"
  by (cases c) simp

lemma takeWhile_parts_calls:
  "takeWhile is_part (map part_block ps @ map call_block cs) = map part_block ps"
proof (induction ps)
  case Nil
  show ?case by (cases cs) (simp_all add: not_is_part_call_block)
next
  case (Cons p ps)
  then show ?case by (simp add: is_part_part_block)
qed

lemma dropWhile_parts_calls:
  "dropWhile is_part (map part_block ps @ map call_block cs) = map call_block cs"
proof (induction ps)
  case Nil
  show ?case by (cases cs) (simp_all add: not_is_part_call_block)
next
  case (Cons p ps)
  then show ?case by (simp add: is_part_part_block)
qed

lemma openai_blocks_parts: "\<exists>ps. openai_blocks c = map part_block ps"
proof (cases c)
  case (StringContent s)
  have "[TextBlock s] = map part_block [TextPart s]" by simp
  then show ?thesis using StringContent by (metis openai_blocks.simps(1))
next
  case (PartsContent ps)
  then show ?thesis by auto
qed

lemma openai_content_out_in:
  "openai_content_out c = Inr w \<Longrightarrow> openai_content_in w = c"
  by (cases c) (auto split: option.splits dest: those_block_part)

lemma openai_content_in_out:
  "\<exists>w. openai_content_out (openai_content_in c) = Inr w"
  using block_part_part_block by (cases c) (simp_all del: map_map)


subsection \<open>OpenAI messages and requests\<close>

lemma openai_message_out_in:
  assumes "openai_message_out m = Inr w"
  shows "openai_message_in w = Inr m"
proof -
  obtain r c where m: "m = \<lparr>msg_role = r, msg_content = c\<rparr>" by (cases m) simp
  show ?thesis
  proof (cases r)
    case System
    with assms m obtain oc where "openai_content_out c = Inr oc"
      "w = \<lparr>o_role = ''system'', o_content = oc, o_tool_calls = [], o_tool_call_id = None\<rparr>"
      by (auto simp: openai_message_out_def split: sum.splits)
    then show ?thesis
      using m System by (simp add: openai_message_in_def openai_content_out_in)
  next
    case User
    with assms m obtain oc where "openai_content_out c = Inr oc"
      "w = \<lparr>o_role = ''user'', o_content = oc, o_tool_calls = [], o_tool_call_id = None\<rparr>"
      by (auto simp: openai_message_out_def split: sum.splits)
    then show ?thesis
      using m User by (simp add: openai_message_in_def openai_content_out_in)
  next
    case Assistant
    show ?thesis
    proof (cases c)
      case (TextContent s)
      with assms m Assistant show ?thesis
        by (auto simp: openai_message_out_def openai_message_in_def)
    next
      case (BlockContent bs)
      with assms m Assistant obtain ps cs where
        ps: "those (map block_part (takeWhile is_part bs)) = Some ps" and
        cs: "those (map block_call (dropWhile is_part bs)) = Some cs" and
        w: "w = \<lparr>o_role = ''assistant'', o_content = PartsContent ps, o_tool_calls = cs,
                  o_tool_call_id = None\<rparr>"
        by (auto simp: openai_message_out_def split: option.splits)
      have bs: "map part_block ps @ map call_block cs = bs"
        using those_block_part [OF ps] those_block_call [OF cs] by simp
      show ?thesis
      proof (cases "cs = []")
        case True
        with bs have "map part_block ps = bs" by simp
        then show ?thesis
          using w True m Assistant BlockContent by (simp add: openai_message_in_def)
      next
        case False
        then show ?thesis
          using w bs m Assistant BlockContent by (simp add: openai_message_in_def)
      qed
    qed
  next
    case Tool
    with assms m obtain i s where "c = BlockContent [ToolResult i s]"
      "w = \<lparr>o_role = ''tool'', o_content = StringContent s, o_tool_calls = [],
            o_tool_call_id = Some i\<rparr>"
      by (auto simp: openai_message_out_def
               split: content.splits list.splits content_block.splits)
    then show ?thesis
      using m Tool by (simp add: openai_message_in_def)
  qed
qed

lemma openai_message_in_out:
  assumes "openai_message_in w = Inr m"
  shows "\<exists>w'. openai_message_out m = Inr w'"
proof -
  consider (sys) "o_role w = ''system''" | (user) "o_role w = ''user''"
    | (assistant) "o_role w = ''assistant''" | (tool) "o_role w = ''tool''"
    using assms by (auto simp: openai_message_in_def split: if_splits)
  then show ?thesis
  proof cases
    case sys
    with assms have "m = \<lparr>msg_role = System, msg_content = openai_content_in (o_content w)\<rparr>"
      by (auto simp: openai_message_in_def split: if_splits)
    then show ?thesis
      using openai_content_in_out [of "o_content w"]
      by (auto simp: openai_message_out_def)
  next
    case user
    with assms have "m = \<lparr>msg_role = User, msg_content = openai_content_in (o_content w)\<rparr>"
      by (auto simp: openai_message_in_def split: if_splits)
    then show ?thesis
      using openai_content_in_out [of "o_content w"]
      by (auto simp: openai_message_out_def)
  next
    case assistant
    show ?thesis
    proof (cases "o_tool_calls w = []")
      case True
      with assms assistant
      have m: "m = \<lparr>msg_role = Assistant, msg_content = openai_content_in (o_content w)\<rparr>"
        by (auto simp: openai_message_in_def split: if_splits)
      show ?thesis
      proof (cases "o_content w")
        case (StringContent s)
        then show ?thesis using m by (simp add: openai_message_out_def)
      next
        case (PartsContent ps)
        have tw: "takeWhile is_part (map part_block ps) = map part_block ps"
          and dw: "dropWhile is_part (map part_block ps) = []"
          using takeWhile_parts_calls [of ps "[]"] dropWhile_parts_calls [of ps "[]"] by simp_all
        show ?thesis
          unfolding m PartsContent
          by (simp add: openai_message_out_def tw dw block_part_part_block del: map_map)
      qed
    next
      case False
      with assms assistant
      have m: "m = \<lparr>msg_role = Assistant,
                     msg_content = BlockContent (openai_blocks (o_content w)
                                                 @ map call_block (o_tool_calls w))\<rparr>"
        by (auto simp: openai_message_in_def split: if_splits)
      obtain ps where ps: "openai_blocks (o_content w) = map part_block ps"
        using openai_blocks_parts by blast
      show ?thesis
        unfolding m ps
        using block_part_part_block [of ps] block_call_call_block [of "o_tool_calls w"]
        by (simp add: openai_message_out_def takeWhile_parts_calls dropWhile_parts_calls
                 del: map_map map_append)
    qed
  next
    case tool
    with assms obtain i s where
      "m = \<lparr>msg_role = Tool, msg_content = BlockContent [ToolResult i s]\<rparr>"
      by (auto simp: openai_message_in_def
               split: if_splits option.splits openai_content.splits list.splits)
    then show ?thesis by (simp add: openai_message_out_def)
  qed
qed

lemma openai_out_in:
  assumes "openai_out c = Inr r"
  shows "openai_in r = Inr c"
proof -
  from assms obtain ms where ne: "req_messages c \<noteq> []"
    and ms: "traverse openai_message_out (req_messages c) = Inr ms"
    and r: "r = \<lparr>o_model = req_model c, o_messages = ms, o_tools = req_tools c,
                 o_sampling = req_sampling c, o_stream = req_stream c\<rparr>"
    by (auto simp: openai_out_def split: if_splits sum.splits)
  have inv: "traverse openai_message_in ms = Inr (req_messages c)"
    using traverse_inverse [OF _ ms] openai_message_out_in by blast
  have "ms \<noteq> []" using traverse_Nil_iff [OF ms] ne by simp
  then show ?thesis
    using inv r by (simp add: openai_in_def)
qed

lemma openai_in_out:
  assumes "openai_in r = Inr c"
  shows "\<exists>r'. openai_out c = Inr r'"
proof -
  from assms obtain ms where ne: "o_messages r \<noteq> []"
    and ms: "traverse openai_message_in (o_messages r) = Inr ms"
    and c: "req_messages c = ms"
    by (auto simp: openai_in_def split: if_splits sum.splits)
  have "\<And>m. m \<in> set ms \<Longrightarrow> \<exists>w. openai_message_out m = Inr w"
    using traverse_results [OF ms] openai_message_in_out by blast
  then obtain ws where "traverse openai_message_out ms = Inr ws"
    using traverse_total [of ms openai_message_out] by blast
  moreover have "ms \<noteq> []" using traverse_Nil_iff [OF ms] ne by simp
  ultimately show ?thesis
    using c by (simp add: openai_out_def)
qed


subsection \<open>Anthropic messages and requests\<close>

lemma anthropic_block_in_out: "anthropic_block_in (anthropic_block_out b) = b"
  by (cases b) simp_all

lemma is_plain_out: "is_plain (anthropic_block_out b) = is_part b"
  by (cases b) simp_all

lemma is_tool_result_out: "is_tool_result (anthropic_block_out b) = is_result b"
  by (cases b) simp_all

lemma is_part_in: "is_part (anthropic_block_in b) = is_plain b"
  by (cases b) simp_all

lemma is_result_in: "is_result (anthropic_block_in b) = is_tool_result b"
  by (cases b) simp_all

lemma map_in_out: "map anthropic_block_in (map anthropic_block_out bs) = bs"
  by (induction bs) (simp_all add: anthropic_block_in_out)

lemma plain_blocks_not_results:
  assumes "list_all is_part bs" and "bs \<noteq> []"
  shows "\<not> list_all is_tool_result (map anthropic_block_out bs)"
proof (cases bs)
  case Nil
  with assms(2) show ?thesis by simp
next
  case (Cons b bs')
  with assms(1) have "is_part b" by simp
  then have "\<not> is_tool_result (anthropic_block_out b)"
    by (cases b) simp_all
  then show ?thesis using Cons by simp
qed

lemma anthropic_message_out_in:
  assumes "anthropic_message_out m = Inr w"
  shows "anthropic_message_in w = Inr [m]"
proof -
  obtain r c where m: "m = \<lparr>msg_role = r, msg_content = c\<rparr>" by (cases m) simp
  show ?thesis
  proof (cases r)
    case System
    with assms m show ?thesis by (simp add: anthropic_message_out_def)
  next
    case User
    show ?thesis
    proof (cases c)
      case (TextContent s)
      with assms m User show ?thesis
        by (auto simp: anthropic_message_out_def anthropic_message_in_def)
    next
      case (BlockContent bs)
      with assms m User have plain: "list_all is_part bs"
        and w: "w = \<lparr>a_role = ''user'', a_content = ABlocks (map anthropic_block_out bs)\<rparr>"
        by (auto simp: anthropic_message_out_def split: if_splits)
      have a: "\<not> (map anthropic_block_out bs \<noteq> []
                  \<and> list_all is_tool_result (map anthropic_block_out bs))"
        using plain_blocks_not_results [OF plain] by auto
      have b: "list_all is_plain (map anthropic_block_out bs)"
        using plain by (induction bs) (simp_all add: is_plain_out)
      show ?thesis
        unfolding w anthropic_message_in_def
        using a b m User BlockContent by (auto simp: map_in_out simp del: map_map)
    qed
  next
    case Assistant
    show ?thesis
    proof (cases c)
      case (TextContent s)
      with assms m Assistant show ?thesis
        by (auto simp: anthropic_message_out_def anthropic_message_in_def)
    next
      case (BlockContent bs)
      with assms m Assistant have nores: "list_all (\<lambda>b. \<not> is_result b) bs"
        and w: "w = \<lparr>a_role = ''assistant'', a_content = ABlocks (map anthropic_block_out bs)\<rparr>"
        by (auto simp: anthropic_message_out_def split: if_splits)
      have b: "list_all (\<lambda>b. \<not> is_tool_result b) (map anthropic_block_out bs)"
        using nores by (induction bs) (simp_all add: is_tool_result_out)
      show ?thesis
        unfolding w anthropic_message_in_def
        using b m Assistant BlockContent by (simp add: map_in_out del: map_map)
    qed
  next
    case Tool
    with assms m obtain i s where "c = BlockContent [ToolResult i s]"
      "w = \<lparr>a_role = ''user'', a_content = ABlocks [tool_result i s]\<rparr>"
      by (auto simp: anthropic_message_out_def
               split: content.splits list.splits content_block.splits)
    then show ?thesis
      using m Tool by (simp add: anthropic_message_in_def result_message_def)
  qed
qed

lemma result_message_out:
  "is_tool_result b \<Longrightarrow> \<exists>w. anthropic_message_out (result_message b) = Inr w"
  by (cases b) (simp_all add: result_message_def anthropic_message_out_def)

lemma anthropic_message_in_out:
  assumes "anthropic_message_in w = Inr ms"
  shows "ms \<noteq> [] \<and> (\<forall>m \<in> set ms. msg_role m \<noteq> System \<and> (\<exists>w'. anthropic_message_out m = Inr w'))"
proof -
  consider (user) "a_role w = ''user''" | (assistant) "a_role w = ''assistant''"
    using assms by (auto simp: anthropic_message_in_def split: if_splits)
  then show ?thesis
  proof cases
    case user
    show ?thesis
    proof (cases "a_content w")
      case (AString s)
      with assms user have "ms = [\<lparr>msg_role = User, msg_content = TextContent s\<rparr>]"
        by (auto simp: anthropic_message_in_def)
      then show ?thesis by (simp add: anthropic_message_out_def)
    next
      case (ABlocks bs)
      show ?thesis
      proof (cases "bs \<noteq> [] \<and> list_all is_tool_result bs")
        case True
        with assms user ABlocks have ms: "ms = map result_message bs"
          by (auto simp: anthropic_message_in_def)
        have "\<And>b. b \<in> set bs \<Longrightarrow> \<exists>w'. anthropic_message_out (result_message b) = Inr w'"
          using True result_message_out by (auto simp: list_all_iff)
        then show ?thesis
          using ms True by (auto simp: result_message_def)
      next
        case False
        with assms user ABlocks have plain: "list_all is_plain bs"
          and ms: "ms = [\<lparr>msg_role = User, msg_content = BlockContent (map anthropic_block_in bs)\<rparr>]"
          by (auto simp: anthropic_message_in_def split: if_splits)
        have "list_all is_part (map anthropic_block_in bs)"
          using plain by (induction bs) (simp_all add: is_part_in)
        then show ?thesis
          unfolding ms by (simp add: anthropic_message_out_def del: map_map)
      qed
    qed
  next
    case assistant
    show ?thesis
    proof (cases "a_content w")
      case (AString s)
      with assms assistant have "ms = [\<lparr>msg_role = Assistant, msg_content = TextContent s\<rparr>]"
        by (auto simp: anthropic_message_in_def)
      then show ?thesis by (simp add: anthropic_message_out_def)
    next
      case (ABlocks bs)
      with assms assistant have nores: "list_all (\<lambda>b. \<not> is_tool_result b) bs"
        and ms: "ms = [\<lparr>msg_role = Assistant,
                         msg_content = BlockContent (map anthropic_block_in bs)\<rparr>]"
        by (auto simp: anthropic_message_in_def split: if_splits)
      have "list_all (\<lambda>b. \<not> is_result b) (map anthropic_block_in bs)"
        using nores by (induction bs) (simp_all add: is_result_in)
      then show ?thesis
        unfolding ms by (simp add: anthropic_message_out_def del: map_map)
    qed
  qed
qed

lemma split_system_join:
  "split_system ms = (sys, body) \<Longrightarrow> system_message sys @ body = ms"
proof (cases ms)
  case Nil
  assume "split_system ms = (sys, body)"
  with Nil show ?thesis by (simp add: system_message_def)
next
  case (Cons m rest)
  assume a: "split_system ms = (sys, body)"
  obtain r c where m: "m = \<lparr>msg_role = r, msg_content = c\<rparr>" by (cases m) simp
  show ?thesis
    using a Cons m
    by (cases r; cases c) (auto simp: system_message_def)
qed

lemma split_system_body:
  assumes "\<forall>m \<in> set body. msg_role m \<noteq> System"
  shows "split_system (system_message sys @ body) = (sys, body)"
proof (cases sys)
  case (Some s)
  then show ?thesis by (simp add: system_message_def)
next
  case None
  show ?thesis
  proof (cases body)
    case Nil
    then show ?thesis using None by (simp add: system_message_def)
  next
    case (Cons m rest)
    with assms have "msg_role m \<noteq> System" by simp
    then show ?thesis
      using None Cons by (cases "msg_role m") (simp_all add: system_message_def)
  qed
qed

lemma anthropic_out_in:
  assumes "anthropic_out c = Inr r"
  shows "anthropic_in r = Inr c"
proof -
  obtain sys body where sp: "split_system (req_messages c) = (sys, body)"
    by (cases "split_system (req_messages c)") simp
  from assms sp obtain ws where ne: "body \<noteq> []"
    and ws: "traverse anthropic_message_out body = Inr ws"
    and r: "r = \<lparr>a_model = req_model c, a_system = sys, a_messages = ws,
                 a_tools = req_tools c, a_sampling = req_sampling c,
                 a_stream = req_stream c\<rparr>"
    by (auto simp: anthropic_out_def split: if_splits sum.splits)
  have inv: "traverse anthropic_message_in ws = Inr (map (\<lambda>m. [m]) body)"
    using traverse_singletons [OF _ ws] anthropic_message_out_in by blast
  have "ws \<noteq> []" using traverse_Nil_iff [OF ws] ne by simp
  moreover have "concat (map (\<lambda>m. [m]) body) = body" by (induction body) simp_all
  ultimately show ?thesis
    using inv r split_system_join [OF sp] by (simp add: anthropic_in_def)
qed

lemma anthropic_in_out:
  assumes "anthropic_in r = Inr c"
  shows "\<exists>r'. anthropic_out c = Inr r'"
proof -
  from assms obtain mss where ne: "a_messages r \<noteq> []"
    and mss: "traverse anthropic_message_in (a_messages r) = Inr mss"
    and c: "req_messages c = system_message (a_system r) @ concat mss"
    by (auto simp: anthropic_in_def split: if_splits sum.splits)
  have each: "\<And>ms. ms \<in> set mss \<Longrightarrow>
      ms \<noteq> [] \<and> (\<forall>m \<in> set ms. msg_role m \<noteq> System \<and> (\<exists>w'. anthropic_message_out m = Inr w'))"
    using traverse_results [OF mss] anthropic_message_in_out by blast
  have "mss \<noteq> []" using traverse_Nil_iff [OF mss] ne by simp
  then obtain ms0 rest where "mss = ms0 # rest" by (cases mss) auto
  with each [of ms0] have body: "concat mss \<noteq> []" by simp
  have nosys: "\<forall>m \<in> set (concat mss). msg_role m \<noteq> System"
    using each by auto
  have "\<And>m. m \<in> set (concat mss) \<Longrightarrow> \<exists>w. anthropic_message_out m = Inr w"
    using each by auto
  then obtain ws where "traverse anthropic_message_out (concat mss) = Inr ws"
    using traverse_total [of "concat mss" anthropic_message_out] by blast
  then show ?thesis
    using c body split_system_body [OF nosys, of "a_system r"]
    by (simp add: anthropic_out_def)
qed

subsection \<open>The round trip\<close>

text \<open>
  The two example requests translate, and the system message, the tool call and the tool
  result arrive in the canonical form.
\<close>

lemma examples_translate:
  "map msg_role (req_messages (projr (toCanonical OpenAI (OpenAI_payload openai_example))))
     = [System, User, Assistant, Tool]"
  "map msg_role (req_messages (projr (toCanonical Anthropic (Anthropic_payload anthropic_example))))
     = [System, User, Assistant, Tool]"
  by (simp_all add: openai_example_def anthropic_example_def openai_in_def anthropic_in_def
        openai_message_in_def anthropic_message_in_def system_message_def result_message_def)

text \<open>
  Claim C2. For each wire format, translating a payload to canonical, back to the wire
  format and to canonical again gives the result of the first translation: every canonical
  request constructible from the OpenAI schema is encoded back without error and decodes to
  itself, and likewise for Anthropic (a TranslationError of the first translation
  propagates through all three steps).
\<close>


theorem translation_round_trip:
  "and_then (and_then (toCanonical f x) (fromCanonical f)) (toCanonical f) = toCanonical f x"
proof (cases "toCanonical f x")
  case (Inl err)
  then show ?thesis by simp
next
  case (Inr c)
  show ?thesis
  proof (cases f)
    case OpenAI
    with Inr obtain r where x: "x = OpenAI_payload r" and r: "openai_in r = Inr c"
      by (cases x) auto
    from openai_in_out [OF r] obtain r' where r': "openai_out c = Inr r'" by blast
    from openai_out_in [OF r'] show ?thesis
      using OpenAI x r r' by simp
  next
    case Anthropic
    with Inr obtain r where x: "x = Anthropic_payload r" and r: "anthropic_in r = Inr c"
      by (cases x) auto
    from anthropic_in_out [OF r] obtain r' where r': "anthropic_out c = Inr r'" by blast
    from anthropic_out_in [OF r'] show ?thesis
      using Anthropic x r r' by simp
  qed
qed

end
